theory Spec2Isabelle
  imports Complex_Main
begin

section \<open>Numbers\<close>

text \<open>
  A C++ \<open>double\<close> is modelled by its exact real value together with the three special
  values of IEEE 754: the two infinities and NaN. The operations below are exact on finite
  values: rounding and overflow of finite results are not part of them, and the sign of a
  zero is not tracked (a zero divisor behaves as \<open>+0\<close>). Every operation follows the
  IEEE 754 rules for the special values, so that a division by zero or an \<open>INFINITY\<close>
  literal in the source is visible in the model. Two places of the program need more than
  that and receive it where they are modelled: the frequencies of \<open>performAC\<close> are
  rounded after every operation, and the zero current of a diode keeps its sign.
\<close>

datatype fp = Fin real | PInf | NInf | NaN

fun is_finite :: "fp \<Rightarrow> bool" where
  "is_finite (Fin x) = True"
| "is_finite PInf = False"
| "is_finite NInf = False"
| "is_finite NaN = False"

fun fneg :: "fp \<Rightarrow> fp" where
  "fneg (Fin x) = Fin (- x)"
| "fneg PInf = NInf"
| "fneg NInf = PInf"
| "fneg NaN = NaN"

fun fadd :: "fp \<Rightarrow> fp \<Rightarrow> fp" where
  "fadd (Fin x) (Fin y) = Fin (x + y)"
| "fadd NaN b = NaN"
| "fadd a NaN = NaN"
| "fadd PInf NInf = NaN"
| "fadd NInf PInf = NaN"
| "fadd PInf b = PInf"
| "fadd a PInf = PInf"
| "fadd NInf b = NInf"
| "fadd a NInf = NInf"

definition fsub :: "fp \<Rightarrow> fp \<Rightarrow> fp" where
  "fsub a b = fadd a (fneg b)"

text \<open>The sign of an infinite product or quotient with a finite operand \<open>y\<close>.\<close>

definition signed_inf :: "bool \<Rightarrow> fp" where
  "signed_inf positive = (if positive then PInf else NInf)"

fun fmul :: "fp \<Rightarrow> fp \<Rightarrow> fp" where
  "fmul (Fin x) (Fin y) = Fin (x * y)"
| "fmul NaN b = NaN"
| "fmul a NaN = NaN"
| "fmul PInf (Fin y) = (if y = 0 then NaN else signed_inf (0 < y))"
| "fmul NInf (Fin y) = (if y = 0 then NaN else signed_inf (y < 0))"
| "fmul (Fin x) PInf = (if x = 0 then NaN else signed_inf (0 < x))"
| "fmul (Fin x) NInf = (if x = 0 then NaN else signed_inf (x < 0))"
| "fmul PInf PInf = PInf"
| "fmul NInf NInf = PInf"
| "fmul PInf NInf = NInf"
| "fmul NInf PInf = NInf"

fun fdiv :: "fp \<Rightarrow> fp \<Rightarrow> fp" where
  "fdiv (Fin x) (Fin y) =
     (if y = 0 then (if x = 0 then NaN else signed_inf (0 < x)) else Fin (x / y))"
| "fdiv NaN b = NaN"
| "fdiv a NaN = NaN"
| "fdiv (Fin x) PInf = Fin 0"
| "fdiv (Fin x) NInf = Fin 0"
| "fdiv PInf (Fin y) = signed_inf (0 \<le> y)"
| "fdiv NInf (Fin y) = signed_inf (y < 0)"
| "fdiv PInf PInf = NaN"
| "fdiv PInf NInf = NaN"
| "fdiv NInf PInf = NaN"
| "fdiv NInf NInf = NaN"

fun fabs :: "fp \<Rightarrow> fp" where
  "fabs (Fin x) = Fin \<bar>x\<bar>"
| "fabs PInf = PInf"
| "fabs NInf = PInf"
| "fabs NaN = NaN"

fun fexp :: "fp \<Rightarrow> fp" where
  "fexp (Fin x) = Fin (exp x)"
| "fexp PInf = PInf"
| "fexp NInf = Fin 0"
| "fexp NaN = NaN"


fun fcos :: "fp \<Rightarrow> fp" where
  "fcos (Fin x) = Fin (cos x)"
| "fcos a = NaN"

fun fsin :: "fp \<Rightarrow> fp" where
  "fsin (Fin x) = Fin (sin x)"
| "fsin a = NaN"

text \<open>The exact values of \<open>log10\<close> and of \<open>pow(10, y)\<close>.\<close>

fun flog10 :: "fp \<Rightarrow> fp" where
  "flog10 (Fin x) = (if x < 0 then NaN else if x = 0 then NInf else Fin (log 10 x))"
| "flog10 PInf = PInf"
| "flog10 NInf = NaN"
| "flog10 NaN = NaN"

fun fpow10 :: "fp \<Rightarrow> fp" where
  "fpow10 (Fin y) = Fin (10 powr y)"
| "fpow10 PInf = PInf"
| "fpow10 NInf = Fin 0"
| "fpow10 NaN = NaN"

text \<open>Comparisons: every comparison with NaN is false.\<close>

fun flt :: "fp \<Rightarrow> fp \<Rightarrow> bool" where
  "flt (Fin x) (Fin y) = (x < y)"
| "flt NaN b = False"
| "flt a NaN = False"
| "flt a NInf = False"
| "flt PInf b = False"
| "flt NInf b = True"
| "flt a PInf = True"

definition fgt :: "fp \<Rightarrow> fp \<Rightarrow> bool" where
  "fgt a b = flt b a"

definition fge :: "fp \<Rightarrow> fp \<Rightarrow> bool" where
  "fge a b = (a \<noteq> NaN \<and> b \<noteq> NaN \<and> \<not> flt a b)"

fun feq :: "fp \<Rightarrow> fp \<Rightarrow> bool" where
  "feq NaN b = False"
| "feq a NaN = False"
| "feq a b = (a = b)"

text \<open>
  \<open>std::complex<double>\<close> is a pair of doubles. Sums, differences and the operations
  with a real scalar work on the two parts separately, as the library's operators do.
\<close>

type_synonym cdouble = "fp \<times> fp"

definition czero :: cdouble where
  "czero = (Fin 0, Fin 0)"

definition cfinite :: "cdouble \<Rightarrow> bool" where
  "cfinite z = (is_finite (fst z) \<and> is_finite (snd z))"

definition cadd :: "cdouble \<Rightarrow> cdouble \<Rightarrow> cdouble" where
  "cadd a b = (fadd (fst a) (fst b), fadd (snd a) (snd b))"

definition csub :: "cdouble \<Rightarrow> cdouble \<Rightarrow> cdouble" where
  "csub a b = (fsub (fst a) (fst b), fsub (snd a) (snd b))"

definition cscale :: "fp \<Rightarrow> cdouble \<Rightarrow> cdouble" where
  "cscale k a = (fmul (fst a) k, fmul (snd a) k)"

definition cdiv_real :: "cdouble \<Rightarrow> fp \<Rightarrow> cdouble" where
  "cdiv_real a k = (fdiv (fst a) k, fdiv (snd a) k)"

definition cconj :: "cdouble \<Rightarrow> cdouble" where
  "cconj a = (fst a, fneg (snd a))"

text \<open>\<open>std::norm\<close>: the squared magnitude, computed as \<open>re * re + im * im\<close>.\<close>

definition cnorm :: "cdouble \<Rightarrow> fp" where
  "cnorm a = fadd (fmul (fst a) (fst a)) (fmul (snd a) (snd a))"

text \<open>
  \<open>std::abs\<close> of a complex number is \<open>hypot(re, im)\<close>: infinite as soon as one part is
  infinite, NaN when a part is NaN and none is infinite.
\<close>

fun cabs :: "cdouble \<Rightarrow> fp" where
  "cabs (Fin x, Fin y) = Fin (sqrt (x * x + y * y))"
| "cabs (PInf, b) = PInf"
| "cabs (NInf, b) = PInf"
| "cabs (a, PInf) = PInf"
| "cabs (a, NInf) = PInf"
| "cabs (a, b) = NaN"

text \<open>
  The numerical library the program is linked against is a parameter of the model. It
  holds what the repository does not define:
  \<^item> \<open>qr_solve\<close>: \<open>A.colPivHouseholderQr().solve(b)\<close> of Eigen;
  \<^item> \<open>cmul_special\<close>, \<open>cdiv_special\<close>: the result of complex multiplication and
    division when an operand is not finite or the divisor is zero (the library recovers
    infinities there in its own way);
  \<^item> \<open>opamp_output\<close>: the saturated output expression of \<open>OpAmp::getVoltageAcross\<close>,
    which compares a complex value with \<open>0\<close> and so has no meaning in C++; its arguments
    are the gain, the two input voltages and the saturation voltage;
  \<^item> \<open>round_double\<close>: the rounding of an exact real result to a \<open>double\<close>;
  \<^item> \<open>lib_log10\<close>, \<open>lib_pow10\<close>: \<open>std::log10(x)\<close> and \<open>std::pow(10, y)\<close> of the
    mathematical library, whose results are doubles close to the exact values;
  \<^item> \<open>complex_to_double\<close>: the conversion that stores a complex value in a \<open>double\<close>.
    C++ defines none; \<open>analyzeStability\<close> needs one, for its member \<open>delta\<close>.
\<close>

record numlib =
  qr_solve :: "cdouble list list \<Rightarrow> cdouble list \<Rightarrow> cdouble list"
  cmul_special :: "cdouble \<Rightarrow> cdouble \<Rightarrow> cdouble"
  cdiv_special :: "cdouble \<Rightarrow> cdouble \<Rightarrow> cdouble"
  opamp_output :: "fp \<Rightarrow> cdouble \<Rightarrow> cdouble \<Rightarrow> fp \<Rightarrow> cdouble"
  round_double :: "real \<Rightarrow> real"
  lib_log10 :: "fp \<Rightarrow> fp"
  lib_pow10 :: "fp \<Rightarrow> fp"
  complex_to_double :: "cdouble \<Rightarrow> fp"

text \<open>A result of double arithmetic: the exact value, rounded when it is finite.\<close>

fun fround :: "numlib \<Rightarrow> fp \<Rightarrow> fp" where
  "fround L (Fin x) = Fin (round_double L x)"
| "fround L PInf = PInf"
| "fround L NInf = NInf"
| "fround L NaN = NaN"


fun cdiv :: "numlib \<Rightarrow> cdouble \<Rightarrow> cdouble \<Rightarrow> cdouble" where
  "cdiv L (Fin a, Fin b) (Fin c, Fin d) =
     (if c = 0 \<and> d = 0 then cdiv_special L (Fin a, Fin b) (Fin c, Fin d)
      else (Fin ((a * c + b * d) / (c * c + d * d)), Fin ((b * c - a * d) / (c * c + d * d))))"
| "cdiv L u v = cdiv_special L u v"

section \<open>Component.hpp\<close>

datatype ComponentType =
  RESISTOR | CAPACITOR | INDUCTOR | VOLTAGE_SOURCE | CURRENT_SOURCE
  | DIODE | TRANSISTOR | OPAMP | TRANSFORMER | GROUND

text \<open>
  A \<open>Node\<close> object is identified by its address, a natural number; the voltages of all
  nodes live in a store (see the analyzer below). A \<open>Pin\<close> holds its name and the node
  it is connected to, \<open>None\<close> for the null pointer. Data members are written
  without the trailing underscore of the source (\<open>pins_\<close> is \<open>pins\<close>).
\<close>

record Pin =
  pin_name :: string
  node :: "nat option"

text \<open>
  The state that the subclasses of BasicComponents.hpp add to \<open>Component\<close>; the
  constructor of each subclass fixes the component type.
\<close>

datatype derived =
  Resistor
  | Capacitor (charge : fp) (cap_frequency : fp)
  | Inductor (flux : fp) (ind_frequency : fp)
  | VoltageSource (current : cdouble) (current_time : fp)
  | Diode
  | OpAmp (output_voltage : cdouble)

record Component =
  comp_name :: string
  pins :: "Pin list"
  parameters :: "string \<rightharpoonup> fp"
  sub :: derived

fun type_of_derived :: "derived \<Rightarrow> ComponentType" where
  "type_of_derived Resistor = RESISTOR"
| "type_of_derived (Capacitor q f) = CAPACITOR"
| "type_of_derived (Inductor q f) = INDUCTOR"
| "type_of_derived (VoltageSource i t) = VOLTAGE_SOURCE"
| "type_of_derived Diode = DIODE"
| "type_of_derived (OpAmp v) = OPAMP"

definition getType :: "Component \<Rightarrow> ComponentType" where
  "getType c = type_of_derived (sub c)"

text \<open>The constructor \<open>Component(name, type)\<close>: no pin, no parameter.\<close>

definition new_Component :: "string \<Rightarrow> derived \<Rightarrow> Component" where
  "new_Component nm s = \<lparr>comp_name = nm, pins = [], parameters = Map.empty, sub = s\<rparr>"

definition addPin :: "Pin \<Rightarrow> Component \<Rightarrow> Component" where
  "addPin p c = c\<lparr>pins := pins c @ [p]\<rparr>"

definition setParameter :: "string \<Rightarrow> fp \<Rightarrow> Component \<Rightarrow> Component" where
  "setParameter k v c = c\<lparr>parameters := (parameters c)(k \<mapsto> v)\<rparr>"

text \<open>\<open>getParameter\<close> looks the name up with \<open>find\<close> and returns \<open>0.0\<close> at the end iterator.\<close>

definition getParameter :: "Component \<Rightarrow> string \<Rightarrow> fp" where
  "getParameter c k = (case parameters c k of None \<Rightarrow> Fin 0 | Some v \<Rightarrow> v)"

text \<open>
  A call of the const method \<open>getParameter\<close>: the value returned and the component as
  the call leaves it.
\<close>

definition getParameter_call :: "Component \<Rightarrow> string \<Rightarrow> fp \<times> Component" where
  "getParameter_call c k = (getParameter c k, c)"

text \<open>A sequence of \<open>setParameter\<close> calls, in order.\<close>

fun setParameters :: "(string \<times> fp) list \<Rightarrow> Component \<Rightarrow> Component" where
  "setParameters [] c = c"
| "setParameters (kv # kvs) c = setParameters kvs (setParameter (fst kv) (snd kv) c)"

section \<open>BasicComponents.hpp\<close>

text \<open>
  What the source leaves undefined is a failure value of the model: reading through a
  null node pointer, indexing a \<open>std::vector\<close> beyond its size, and an index or a
  dimension that Eigen's assertions reject.
\<close>

datatype failure = NullPointer | OutOfRange | EigenAssertion

text \<open>
  The constructors of the six classes. Each sets its parameters and then adds its pins,
  which start unconnected. (The back-reference of a pin to its component is not modelled:
  nothing reads it.)
\<close>

definition new_Pin :: "string \<Rightarrow> Pin" where
  "new_Pin nm = \<lparr>pin_name = nm, node = None\<rparr>"

definition new_Resistor :: "string \<Rightarrow> fp \<Rightarrow> Component" where
  "new_Resistor nm resistance =
     addPin (new_Pin ''p2'') (addPin (new_Pin ''p1'')
       (setParameter ''resistance'' resistance (new_Component nm Resistor)))"

definition new_Capacitor :: "string \<Rightarrow> fp \<Rightarrow> Component" where
  "new_Capacitor nm capacitance =
     addPin (new_Pin ''p2'') (addPin (new_Pin ''p1'')
       (setParameter ''capacitance'' capacitance
         (new_Component nm (Capacitor (Fin 0) (Fin 0)))))"

definition new_Inductor :: "string \<Rightarrow> fp \<Rightarrow> Component" where
  "new_Inductor nm inductance =
     addPin (new_Pin ''p2'') (addPin (new_Pin ''p1'')
       (setParameter ''inductance'' inductance
         (new_Component nm (Inductor (Fin 0) (Fin 0)))))"

definition new_VoltageSource :: "string \<Rightarrow> fp \<Rightarrow> fp \<Rightarrow> Component" where
  "new_VoltageSource nm voltage frequency =
     addPin (new_Pin ''p2'') (addPin (new_Pin ''p1'')
       (setParameter ''frequency'' frequency (setParameter ''voltage'' voltage
         (new_Component nm (VoltageSource czero (Fin 0))))))"

definition new_Diode :: "string \<Rightarrow> Component" where
  "new_Diode nm =
     addPin (new_Pin ''cathode'') (addPin (new_Pin ''anode'')
       (setParameter ''vt'' (Fin (26 / 1000)) (setParameter ''is'' (Fin (1 / 10 ^ 12))
         (new_Component nm Diode))))"

definition new_OpAmp :: "string \<Rightarrow> Component" where
  "new_OpAmp nm =
     addPin (new_Pin ''out'') (addPin (new_Pin ''in-'') (addPin (new_Pin ''in+'')
       (setParameter ''vsat'' (Fin 15) (setParameter ''gbw'' (Fin (10 ^ 6))
         (setParameter ''gain'' (Fin (10 ^ 5)) (new_Component nm (OpAmp czero)))))))"

text \<open>
  \<open>pins_[i]->getNode()->getVoltage()\<close>, with the node voltages read from the store \<open>V\<close>
  (node address to voltage).
\<close>

definition pin_voltage :: "(nat \<Rightarrow> cdouble) \<Rightarrow> Component \<Rightarrow> nat \<Rightarrow> failure + cdouble" where
  "pin_voltage V c i =
     (if length (pins c) \<le> i then Inl OutOfRange
      else (case node (pins c ! i) of None \<Rightarrow> Inl NullPointer | Some a \<Rightarrow> Inr (V a)))"

text \<open>The voltage of pin 0 minus the voltage of pin 1.\<close>

definition pins_difference :: "(nat \<Rightarrow> cdouble) \<Rightarrow> Component \<Rightarrow> failure + cdouble" where
  "pins_difference V c =
     (case pin_voltage V c 0 of Inl e \<Rightarrow> Inl e
      | Inr v1 \<Rightarrow> (case pin_voltage V c 1 of Inl e \<Rightarrow> Inl e | Inr v2 \<Rightarrow> Inr (csub v1 v2)))"

definition two_pi :: fp where
  "two_pi = fmul (Fin 2) (Fin pi)"

text \<open>The second argument is the member \<open>current_time_\<close> of the source.\<close>

definition VoltageSource_getVoltageAcross :: "Component \<Rightarrow> fp \<Rightarrow> cdouble" where
  "VoltageSource_getVoltageAcross c tm =
     (let freq = getParameter c ''frequency'' in
      if feq freq (Fin 0) then (getParameter c ''voltage'', Fin 0)
      else (let omega = fmul two_pi freq in
            (fmul (getParameter c ''voltage'') (fcos (fmul omega tm)),
             fmul (getParameter c ''voltage'') (fsin (fmul omega tm)))))"

definition OpAmp_getVoltageAcross ::
  "numlib \<Rightarrow> (nat \<Rightarrow> cdouble) \<Rightarrow> Component \<Rightarrow> failure + cdouble" where
  "OpAmp_getVoltageAcross L V c =
     (case pin_voltage V c 0 of Inl e \<Rightarrow> Inl e
      | Inr vp \<Rightarrow> (case pin_voltage V c 1 of Inl e \<Rightarrow> Inl e
          | Inr vn \<Rightarrow>
              Inr (opamp_output L (getParameter c ''gain'') vp vn (getParameter c ''vsat''))))"

definition getVoltageAcross ::
  "numlib \<Rightarrow> (nat \<Rightarrow> cdouble) \<Rightarrow> Component \<Rightarrow> failure + cdouble" where
  "getVoltageAcross L V c =
     (case sub c of
        VoltageSource i t \<Rightarrow> Inr (VoltageSource_getVoltageAcross c t)
      | OpAmp v \<Rightarrow> OpAmp_getVoltageAcross L V c
      | _ \<Rightarrow> pins_difference V c)"

definition Resistor_getImpedance :: "Component \<Rightarrow> cdouble" where
  "Resistor_getImpedance c = (getParameter c ''resistance'', Fin 0)"

definition Capacitor_getImpedance :: "Component \<Rightarrow> fp \<Rightarrow> cdouble" where
  "Capacitor_getImpedance c frequency =
     (if feq frequency (Fin 0) then (PInf, Fin 0)
      else (let xc = fdiv (Fin 1) (fmul (fmul two_pi frequency) (getParameter c ''capacitance''))
            in (Fin 0, fneg xc)))"

definition Inductor_getImpedance :: "Component \<Rightarrow> fp \<Rightarrow> cdouble" where
  "Inductor_getImpedance c frequency =
     (let xl = fmul (fmul two_pi frequency) (getParameter c ''inductance'') in (Fin 0, xl))"

text \<open>The diode current \<open>is * (exp(v / vt) - 1)\<close> at the magnitude \<open>v\<close> of its voltage.\<close>

definition diode_current :: "Component \<Rightarrow> fp \<Rightarrow> fp" where
  "diode_current c v =
     fmul (getParameter c ''is'') (fsub (fexp (fdiv v (getParameter c ''vt''))) (Fin 1))"

text \<open>
  \<open>Diode::getImpedance\<close> returns \<open>vt / id\<close> with no test of \<open>id\<close>. When \<open>id\<close> is a
  zero, the quotient is an infinity whose sign depends on the sign of that zero. The factor
  \<open>exp(v / vt) - 1\<close> is \<open>+0\<close> whenever it is zero, so that the zero product has the sign
  of the saturation current \<open>is\<close>: for a negative \<open>is\<close> the divisor is \<open>-0\<close> and the
  quotient has the opposite sign. (The sign of a parameter \<open>is\<close> that is itself a zero is
  not known to the model; it is taken as \<open>+0\<close>.)
\<close>

definition Diode_getImpedance :: "(nat \<Rightarrow> cdouble) \<Rightarrow> Component \<Rightarrow> failure + cdouble" where
  "Diode_getImpedance V c =
     (case pins_difference V c of Inl e \<Rightarrow> Inl e
      | Inr vd \<Rightarrow>
          (let vt = getParameter c ''vt'';
               id = diode_current c (cabs vd)
           in Inr (if id = Fin 0 \<and> flt (getParameter c ''is'') (Fin 0)
                   then fneg (fdiv vt (Fin 0)) else fdiv vt id, Fin 0)))"

definition getImpedance ::
  "(nat \<Rightarrow> cdouble) \<Rightarrow> Component \<Rightarrow> fp \<Rightarrow> failure + cdouble" where
  "getImpedance V c frequency =
     (case sub c of
        Resistor \<Rightarrow> Inr (Resistor_getImpedance c)
      | Capacitor q f \<Rightarrow> Inr (Capacitor_getImpedance c frequency)
      | Inductor q f \<Rightarrow> Inr (Inductor_getImpedance c frequency)
      | VoltageSource i t \<Rightarrow> Inr czero
      | Diode \<Rightarrow> Diode_getImpedance V c
      | OpAmp v \<Rightarrow> Inr (Fin (10 ^ 6), Fin 0))"

definition getCurrentThrough ::
  "numlib \<Rightarrow> (nat \<Rightarrow> cdouble) \<Rightarrow> Component \<Rightarrow> failure + cdouble" where
  "getCurrentThrough L V c =
     (case sub c of
        Resistor \<Rightarrow>
          (case pins_difference V c of Inl e \<Rightarrow> Inl e
           | Inr v \<Rightarrow> Inr (cdiv_real v (getParameter c ''resistance'')))
      | Capacitor q f \<Rightarrow>
          (case pins_difference V c of Inl e \<Rightarrow> Inl e
           | Inr v \<Rightarrow> Inr (cdiv L v (Capacitor_getImpedance c f)))
      | Inductor q f \<Rightarrow>
          (case pins_difference V c of Inl e \<Rightarrow> Inl e
           | Inr v \<Rightarrow> Inr (cdiv L v (Inductor_getImpedance c f)))
      | VoltageSource i t \<Rightarrow> Inr i
      | Diode \<Rightarrow>
          (case pins_difference V c of Inl e \<Rightarrow> Inl e
           | Inr vd \<Rightarrow> Inr (diode_current c (cabs vd), Fin 0))
      | OpAmp v \<Rightarrow> Inr czero)"

text \<open>\<open>updateState(timestep)\<close>: the component after the call.\<close>

definition updateState ::
  "numlib \<Rightarrow> (nat \<Rightarrow> cdouble) \<Rightarrow> fp \<Rightarrow> Component \<Rightarrow> failure + Component" where
  "updateState L V dt c =
     (case sub c of
        Resistor \<Rightarrow> Inr c
      | Capacitor q f \<Rightarrow>
          (case getCurrentThrough L V c of Inl e \<Rightarrow> Inl e
           | Inr i \<Rightarrow> Inr (c\<lparr>sub := Capacitor (fadd q (fmul (cabs i) dt)) f\<rparr>))
      | Inductor q f \<Rightarrow>
          (case getVoltageAcross L V c of Inl e \<Rightarrow> Inl e
           | Inr v \<Rightarrow> Inr (c\<lparr>sub := Inductor (fadd q (fmul (cabs v) dt)) f\<rparr>))
      | VoltageSource i t \<Rightarrow> Inr (c\<lparr>sub := VoltageSource i (fadd t dt)\<rparr>)
      | Diode \<Rightarrow> Inr c
      | OpAmp v \<Rightarrow>
          (case getVoltageAcross L V c of Inl e \<Rightarrow> Inl e
           | Inr vout \<Rightarrow> Inr (c\<lparr>sub := OpAmp vout\<rparr>)))"

section \<open>CircuitAnalyzer.hpp\<close>

text \<open>
  The analyzer with all its data members, and the store of the \<open>Node\<close> objects that it
  and its components share: \<open>voltage\<close> maps a node address to the node's voltage, and
  the addresses below \<open>node_count\<close> are allocated. \<open>nodes\<close> holds node addresses.
  \<open>voltage_sources\<close> holds pointers to sources that are also components: positions in
  \<open>components\<close>.
\<close>

record CircuitAnalyzer =
  components :: "Component list"
  nodes :: "nat list"
  voltage_sources :: "nat list"
  ground_node :: "nat option"
  mna_A :: "cdouble list list"
  mna_b :: "cdouble list"
  current_frequency :: fp
  time_now :: fp
  timestep :: fp
  next_node_id :: nat
  frequency_response :: "fp \<rightharpoonup> cdouble list"
  voltage :: "nat \<Rightarrow> cdouble"
  node_count :: nat

definition new_CircuitAnalyzer :: CircuitAnalyzer where
  "new_CircuitAnalyzer =
     \<lparr>components = [], nodes = [], voltage_sources = [], ground_node = None,
      mna_A = [], mna_b = [], current_frequency = Fin 0, time_now = Fin 0,
      timestep = Fin (1 / 10 ^ 6), next_node_id = 0, frequency_response = Map.empty,
      voltage = (\<lambda>a. czero), node_count = 0\<rparr>"

text \<open>Sequencing of steps that may fail: the first failure ends the run.\<close>

definition seq :: "failure + 'a \<Rightarrow> ('a \<Rightarrow> failure + 'b) \<Rightarrow> failure + 'b" where
  "seq r f = (case r of Inl e \<Rightarrow> Inl e | Inr x \<Rightarrow> f x)"

text \<open>
  The loop of \<open>addComponent\<close> over the pins: a pin without a node gets a fresh node
  (voltage \<open>0\<close>), which is appended to \<open>nodes\<close>.
\<close>

fun connect_pins :: "Pin list \<Rightarrow> CircuitAnalyzer \<Rightarrow> Pin list \<times> CircuitAnalyzer" where
  "connect_pins [] s = ([], s)"
| "connect_pins (p # ps) s =
     (case node p of
        Some a \<Rightarrow> (let (ps', s') = connect_pins ps s in (p # ps', s'))
      | None \<Rightarrow>
          (let a = node_count s;
               s1 = s\<lparr>next_node_id := next_node_id s + 1, node_count := node_count s + 1,
                      voltage := (voltage s)(a := czero), nodes := nodes s @ [a]\<rparr>;
               (ps', s') = connect_pins ps s1
           in (p\<lparr>node := Some a\<rparr> # ps', s')))"

definition addComponent :: "Component \<Rightarrow> CircuitAnalyzer \<Rightarrow> CircuitAnalyzer" where
  "addComponent c s =
     (let (ps, s') = connect_pins (pins c) s
      in s'\<lparr>components := components s' @ [c\<lparr>pins := ps\<rparr>]\<rparr>)"

definition setGroundNode :: "nat option \<Rightarrow> CircuitAnalyzer \<Rightarrow> CircuitAnalyzer" where
  "setGroundNode n s = s\<lparr>ground_node := n\<rparr>"

definition getNodeVoltages :: "CircuitAnalyzer \<Rightarrow> cdouble list" where
  "getNodeVoltages s = map (voltage s) (nodes s)"

text \<open>The search loop of \<open>getNodeIndex\<close>, from position \<open>i\<close> on.\<close>

fun index_from :: "nat list \<Rightarrow> nat \<Rightarrow> nat \<Rightarrow> int" where
  "index_from [] a i = - 1"
| "index_from (x # xs) a i = (if x = a then int i else index_from xs a (i + 1))"

definition getNodeIndex :: "CircuitAnalyzer \<Rightarrow> nat option \<Rightarrow> int" where
  "getNodeIndex s nd =
     (if nd = ground_node s then - 1
      else (case nd of None \<Rightarrow> - 1 | Some a \<Rightarrow> index_from (nodes s) a 0))"

text \<open>
  Eigen's dense matrix as a list of rows. Access to a coefficient is checked, as Eigen's
  assertion does: an index outside the matrix is a failure.
\<close>

definition zero_matrix :: "nat \<Rightarrow> cdouble list list" where
  "zero_matrix n = replicate n (replicate n czero)"

definition in_matrix :: "cdouble list list \<Rightarrow> int \<Rightarrow> int \<Rightarrow> bool" where
  "in_matrix A i j = (0 \<le> i \<and> i < int (length A) \<and> 0 \<le> j \<and> j < int (length A))"

definition coeff :: "cdouble list list \<Rightarrow> int \<Rightarrow> int \<Rightarrow> cdouble" where
  "coeff A i j = A ! nat i ! nat j"

definition coeff_set ::
  "cdouble list list \<Rightarrow> int \<Rightarrow> int \<Rightarrow> cdouble \<Rightarrow> failure + cdouble list list" where
  "coeff_set A i j v =
     (if in_matrix A i j then Inr (A[nat i := (A ! nat i)[nat j := v]])
      else Inl EigenAssertion)"

definition coeff_add ::
  "cdouble list list \<Rightarrow> int \<Rightarrow> int \<Rightarrow> cdouble \<Rightarrow> failure + cdouble list list" where
  "coeff_add A i j y =
     (if in_matrix A i j then coeff_set A i j (cadd (coeff A i j) y) else Inl EigenAssertion)"

definition coeff_sub ::
  "cdouble list list \<Rightarrow> int \<Rightarrow> int \<Rightarrow> cdouble \<Rightarrow> failure + cdouble list list" where
  "coeff_sub A i j y =
     (if in_matrix A i j then coeff_set A i j (csub (coeff A i j) y) else Inl EigenAssertion)"

definition vec_set :: "cdouble list \<Rightarrow> int \<Rightarrow> cdouble \<Rightarrow> failure + cdouble list" where
  "vec_set b i v =
     (if 0 \<le> i \<and> i < int (length b) then Inr (b[nat i := v]) else Inl EigenAssertion)"

definition vec_get :: "cdouble list \<Rightarrow> int \<Rightarrow> failure + cdouble" where
  "vec_get x i =
     (if 0 \<le> i \<and> i < int (length x) then Inr (x ! nat i) else Inl EigenAssertion)"

text \<open>
  The four updates of the conductance block for an admittance \<open>y\<close> between the matrix
  indices \<open>n1\<close> and \<open>n2\<close>; a negative index stands for the ground node.
\<close>

definition stamp_admittance ::
  "cdouble list list \<Rightarrow> int \<Rightarrow> int \<Rightarrow> cdouble \<Rightarrow> failure + cdouble list list" where
  "stamp_admittance A n1 n2 y =
     seq (if 0 \<le> n1
          then seq (coeff_add A n1 n1 y)
                 (\<lambda>A1. if 0 \<le> n2 then coeff_sub A1 n1 n2 y else Inr A1)
          else Inr A) (\<lambda>A2.
       if 0 \<le> n2
       then seq (coeff_add A2 n2 n2 y)
              (\<lambda>A3. if 0 \<le> n1 then coeff_sub A3 n2 n1 y else Inr A3)
       else Inr A2)"

text \<open>
  The body of the first loop of \<open>buildMNA\<close>: the stamp of one component that is not a
  voltage source into the matrix.
\<close>

definition stamp_conductance ::
  "numlib \<Rightarrow> CircuitAnalyzer \<Rightarrow> Component \<Rightarrow> cdouble list list
     \<Rightarrow> failure + cdouble list list" where
  "stamp_conductance L s c A =
     (if getType c \<noteq> VOLTAGE_SOURCE then
        seq (getImpedance (voltage s) c (current_frequency s)) (\<lambda>z.
          let y = cdiv L (Fin 1, Fin 0) z in
          if length (pins c) < 2 then Inl OutOfRange
          else stamp_admittance A (getNodeIndex s (node (pins c ! 0)))
                 (getNodeIndex s (node (pins c ! 1))) y)
      else Inr A)"

fun stamp_components ::
  "numlib \<Rightarrow> CircuitAnalyzer \<Rightarrow> Component list \<Rightarrow> cdouble list list
     \<Rightarrow> failure + cdouble list list" where
  "stamp_components L s [] A = Inr A"
| "stamp_components L s (c # cs) A =
     seq (stamp_conductance L s c A) (stamp_components L s cs)"

text \<open>
  The body of the second loop of \<open>buildMNA\<close>: the stamp of the voltage source at
  position \<open>k\<close> of \<open>components\<close> with the current unknown \<open>vsi\<close>.
\<close>

definition stamp_source ::
  "numlib \<Rightarrow> CircuitAnalyzer \<Rightarrow> nat \<Rightarrow> int \<Rightarrow> cdouble list list \<times> cdouble list
     \<Rightarrow> failure + cdouble list list \<times> cdouble list" where
  "stamp_source L s k vsi Ab =
     (if length (components s) \<le> k then Inl OutOfRange
      else
        let vs = components s ! k in
        if length (pins vs) < 2 then Inl OutOfRange
        else
          let n1 = getNodeIndex s (node (pins vs ! 0));
              n2 = getNodeIndex s (node (pins vs ! 1))
          in
            seq (if 0 \<le> n1
                 then seq (coeff_set (fst Ab) n1 vsi (Fin 1, Fin 0))
                        (\<lambda>A1. coeff_set A1 vsi n1 (Fin 1, Fin 0))
                 else Inr (fst Ab)) (\<lambda>A2.
            seq (if 0 \<le> n2
                 then seq (coeff_set A2 n2 vsi (Fin (- 1), Fin 0))
                        (\<lambda>A3. coeff_set A3 vsi n2 (Fin (- 1), Fin 0))
                 else Inr A2) (\<lambda>A4.
            seq (getVoltageAcross L (voltage s) vs) (\<lambda>v.
            seq (vec_set (snd Ab) vsi v) (\<lambda>b'. Inr (A4, b'))))))"

fun stamp_sources ::
  "numlib \<Rightarrow> CircuitAnalyzer \<Rightarrow> nat list \<Rightarrow> int \<Rightarrow> cdouble list list \<times> cdouble list
     \<Rightarrow> failure + cdouble list list \<times> cdouble list" where
  "stamp_sources L s [] vsi Ab = Inr Ab"
| "stamp_sources L s (k # ks) vsi Ab =
     seq (stamp_source L s k vsi Ab) (stamp_sources L s ks (vsi + 1))"

text \<open>
  \<open>buildMNA\<close>. \<open>nodes_.size() - 1\<close> is computed in \<open>size_t\<close> and stored in an \<open>int\<close>: it
  is \<open>-1\<close> for an empty node list, and Eigen rejects a negative dimension.
\<close>

definition buildMNA :: "numlib \<Rightarrow> CircuitAnalyzer \<Rightarrow> failure + CircuitAnalyzer" where
  "buildMNA L s =
     (let n = int (length (nodes s)) - 1;
          m = int (length (voltage_sources s));
          size = n + m
      in
        if size < 0 then Inl EigenAssertion
        else
          seq (stamp_components L s (components s) (zero_matrix (nat size))) (\<lambda>A.
          seq (stamp_sources L s (voltage_sources s) n (A, replicate (nat size) czero))
            (\<lambda>Ab. Inr (s\<lparr>mna_A := fst Ab, mna_b := snd Ab\<rparr>))))"

text \<open>The first loop of \<open>solve\<close>: node \<open>i\<close> of the list receives \<open>x(i)\<close>.\<close>

fun write_voltages ::
  "cdouble list \<Rightarrow> nat list \<Rightarrow> int \<Rightarrow> (nat \<Rightarrow> cdouble) \<Rightarrow> failure + (nat \<Rightarrow> cdouble)" where
  "write_voltages x [] i V = Inr V"
| "write_voltages x (a # as) i V =
     seq (vec_get x i) (\<lambda>v. write_voltages x as (i + 1) (V(a := v)))"

text \<open>\<open>setCurrent\<close> of the class \<open>VoltageSource\<close>.\<close>

definition setCurrent :: "cdouble \<Rightarrow> Component \<Rightarrow> Component" where
  "setCurrent i c =
     (case sub c of VoltageSource i0 t \<Rightarrow> c\<lparr>sub := VoltageSource i t\<rparr> | _ \<Rightarrow> c)"

text \<open>The second loop of \<open>solve\<close>: the source at position \<open>k\<close> receives \<open>x(vsi)\<close>.\<close>

fun write_currents ::
  "cdouble list \<Rightarrow> nat list \<Rightarrow> int \<Rightarrow> Component list \<Rightarrow> failure + Component list" where
  "write_currents x [] vsi cs = Inr cs"
| "write_currents x (k # ks) vsi cs =
     (if length cs \<le> k then Inl OutOfRange
      else seq (vec_get x vsi)
             (\<lambda>i. write_currents x ks (vsi + 1) (cs[k := setCurrent i (cs ! k)])))"

text \<open>
  \<open>solve\<close>. The bound \<open>nodes_.size() - 1\<close> of the first loop is a \<open>size_t\<close>: with an empty
  node list it wraps around and the loop reads \<open>nodes_[0]\<close>, which does not exist.
\<close>

definition solve :: "numlib \<Rightarrow> CircuitAnalyzer \<Rightarrow> failure + CircuitAnalyzer" where
  "solve L s =
     (let x = qr_solve L (mna_A s) (mna_b s) in
      if nodes s = [] then Inl OutOfRange
      else
        seq (write_voltages x (butlast (nodes s)) 0 (voltage s)) (\<lambda>V.
        seq (write_currents x (voltage_sources s) (int (length (nodes s)) - 1) (components s))
          (\<lambda>cs. Inr (s\<lparr>voltage := V, components := cs\<rparr>))))"

text \<open>A loop that calls \<open>updateState(dt)\<close> on every component, in order.\<close>

fun update_all ::
  "numlib \<Rightarrow> (nat \<Rightarrow> cdouble) \<Rightarrow> fp \<Rightarrow> Component list \<Rightarrow> failure + Component list" where
  "update_all L V dt [] = Inr []"
| "update_all L V dt (c # cs) =
     seq (updateState L V dt c) (\<lambda>c'. seq (update_all L V dt cs) (\<lambda>cs'. Inr (c' # cs')))"

definition updateComponents :: "numlib \<Rightarrow> CircuitAnalyzer \<Rightarrow> failure + CircuitAnalyzer" where
  "updateComponents L s =
     seq (update_all L (voltage s) (timestep s) (components s))
       (\<lambda>cs. Inr (s\<lparr>components := cs\<rparr>))"

definition analyze :: "numlib \<Rightarrow> fp \<Rightarrow> CircuitAnalyzer \<Rightarrow> failure + CircuitAnalyzer" where
  "analyze L frequency s =
     seq (buildMNA L (s\<lparr>current_frequency := frequency\<rparr>)) (\<lambda>s1.
     seq (solve L s1) (updateComponents L))"

text \<open>
  \<open>performTransient\<close>. The loop runs while \<open>t < stop_time\<close>, and nothing bounds the
  number of its rounds (a step that is zero, negative or NaN with respect to the stop time
  never reaches it), so the loop is a partial function: \<open>None\<close> is a run that does not
  return. \<open>analyze()\<close> is called with its default frequency \<open>0.0\<close>.
\<close>

partial_function (option) transient_loop ::
  "numlib \<Rightarrow> fp \<Rightarrow> fp \<Rightarrow> fp \<Rightarrow> CircuitAnalyzer \<Rightarrow> (failure + CircuitAnalyzer) option" where
  "transient_loop L stop_time dt t s =
     (if flt t stop_time then
        (case analyze L (Fin 0) s of
           Inl e \<Rightarrow> Some (Inl e)
         | Inr s1 \<Rightarrow>
             (case update_all L (voltage s1) dt (components s1) of
                Inl e \<Rightarrow> Some (Inl e)
              | Inr cs \<Rightarrow>
                  transient_loop L stop_time dt (fadd t dt)
                    (s1\<lparr>components := cs, time_now := fadd t dt\<rparr>)))
      else Some (Inr s))"

definition performTransient ::
  "numlib \<Rightarrow> fp \<Rightarrow> fp \<Rightarrow> CircuitAnalyzer \<Rightarrow> (failure + CircuitAnalyzer) option" where
  "performTransient L stop_time dt s = transient_loop L stop_time dt (Fin 0) s"

text \<open>
  \<open>performAC\<close>: the list of frequencies of the first loop, then the second loop, which
  analyzes each frequency and stores the node voltages under it. \<open>points\<close> is an \<open>int\<close>.
  The frequencies are keys of a map and are compared with the end points of the sweep, so
  here every arithmetic result is rounded (\<open>fround\<close>), and the logarithm and the power
  are those of the library. The product \<open>i * step\<close> and the sum with \<open>log_start\<close> are
  rounded one after the other (they are not fused); the conversions of \<open>points - 1\<close> and
  of \<open>i\<close> to \<open>double\<close> are exact.
\<close>

definition ac_frequencies :: "numlib \<Rightarrow> fp \<Rightarrow> fp \<Rightarrow> int \<Rightarrow> fp list" where
  "ac_frequencies L start_freq stop_freq points =
     (let log_start = lib_log10 L start_freq;
          log_stop = lib_log10 L stop_freq;
          step = fround L (fdiv (fround L (fsub log_stop log_start)) (Fin (of_int (points - 1))))
      in map (\<lambda>i. lib_pow10 L
                    (fround L (fadd log_start (fround L (fmul (Fin (of_nat i)) step)))))
           [0..<nat points])"

fun ac_sweep :: "numlib \<Rightarrow> fp list \<Rightarrow> CircuitAnalyzer \<Rightarrow> failure + CircuitAnalyzer" where
  "ac_sweep L [] s = Inr s"
| "ac_sweep L (f # fs) s =
     seq (analyze L f s) (\<lambda>s1.
       ac_sweep L fs
         (s1\<lparr>frequency_response := (frequency_response s1)(f \<mapsto> getNodeVoltages s1)\<rparr>))"

definition performAC ::
  "numlib \<Rightarrow> fp \<Rightarrow> fp \<Rightarrow> int \<Rightarrow> CircuitAnalyzer \<Rightarrow> failure + CircuitAnalyzer" where
  "performAC L start_freq stop_freq points s =
     ac_sweep L (ac_frequencies L start_freq stop_freq points) s"

section \<open>AdvancedAnalysis.hpp: StabilityAnalyzer\<close>







section \<open>RFOptimizer.hpp and AdvancedOptimizer.hpp: the Nelder-Mead optimizer\<close>

record Parameter =
  par_name :: string
  min_value :: fp
  max_value :: fp
  current_value :: fp

datatype ObjectiveType = MINIMIZE | MAXIMIZE | TARGET

record Objective =
  obj_name :: string
  obj_type :: ObjectiveType
  target_value :: fp
  weight :: fp

text \<open>
  The optimizer. The random engine is a sequence of the values in \<open>[0, 1)\<close> that the
  uniform distribution draws from it, with the position of the next draw. \<open>measured\<close>
  records the calls of the measurement function: the parameter vectors passed to it, in
  order.
\<close>

record RFOptimizer =
  opt_parameters :: "Parameter list"
  objectives :: "Objective list"
  measurement_func :: "Parameter list \<Rightarrow> fp list"
  rng_draws :: "nat \<Rightarrow> real"
  rng_pos :: nat
  measured :: "Parameter list list"

text \<open>\<open>uniformDist(lo, hi)\<close>: the draw scaled by \<open>hi - lo\<close> and shifted by \<open>lo\<close>.\<close>

definition uniformDist :: "fp \<Rightarrow> fp \<Rightarrow> RFOptimizer \<Rightarrow> fp \<times> RFOptimizer" where
  "uniformDist lo hi opt =
     (fadd (fmul (Fin (rng_draws opt (rng_pos opt))) (fsub hi lo)) lo,
      opt\<lparr>rng_pos := rng_pos opt + 1\<rparr>)"

fun randomize :: "Parameter list \<Rightarrow> RFOptimizer \<Rightarrow> Parameter list \<times> RFOptimizer" where
  "randomize [] opt = ([], opt)"
| "randomize (p # ps) opt =
     (let (v, opt1) = uniformDist (min_value p) (max_value p) opt;
          (ps', opt2) = randomize ps opt1
      in (p\<lparr>current_value := v\<rparr> # ps', opt2))"

definition generateRandomIndividual :: "RFOptimizer \<Rightarrow> Parameter list \<times> RFOptimizer" where
  "generateRandomIndividual opt = randomize (opt_parameters opt) opt"

text \<open>The loop of \<open>evaluateFitness\<close> over the objectives and the measurements.\<close>

fun fitness_loop :: "Objective list \<Rightarrow> fp list \<Rightarrow> fp \<Rightarrow> failure + fp" where
  "fitness_loop [] ms acc = Inr acc"
| "fitness_loop (ob # obs) [] acc = Inl OutOfRange"
| "fitness_loop (ob # obs) (v # ms) acc =
     fitness_loop obs ms
       (case obj_type ob of
          MINIMIZE \<Rightarrow> fsub acc (fmul (weight ob) v)
        | MAXIMIZE \<Rightarrow> fadd acc (fmul (weight ob) v)
        | TARGET \<Rightarrow> fsub acc (fmul (weight ob) (fabs (fsub v (target_value ob)))))"

definition evaluateFitness ::
  "Parameter list \<Rightarrow> RFOptimizer \<Rightarrow> failure + fp \<times> RFOptimizer" where
  "evaluateFitness individual opt =
     seq (fitness_loop (objectives opt) (measurement_func opt individual) (Fin 0))
       (\<lambda>f. Inr (f, opt\<lparr>measured := measured opt @ [individual]\<rparr>))"

text \<open>\<open>-evaluateFitness(x)\<close>, the value that Nelder-Mead minimises.\<close>

definition energy :: "Parameter list \<Rightarrow> RFOptimizer \<Rightarrow> failure + fp \<times> RFOptimizer" where
  "energy individual opt =
     seq (evaluateFitness individual opt) (\<lambda>r. Inr (fneg (fst r), snd r))"

text \<open>\<open>std::clamp(v, lo, hi)\<close>.\<close>

definition clamp :: "fp \<Rightarrow> fp \<Rightarrow> fp \<Rightarrow> fp" where
  "clamp v lo hi = (if flt v lo then lo else if flt hi v then hi else v)"

definition clamp_current :: "Parameter \<Rightarrow> Parameter" where
  "clamp_current p = p\<lparr>current_value := clamp (current_value p) (min_value p) (max_value p)\<rparr>"

text \<open>
  \<open>NelderMead::reflect\<close>: the loop over the positions \<open>i\<close> below the number \<open>n\<close> of
  parameters, on a copy of the centroid.
\<close>

definition reflect ::
  "nat \<Rightarrow> Parameter list \<Rightarrow> Parameter list \<Rightarrow> fp \<Rightarrow> Parameter list" where
  "reflect n centroid point coefficient =
     foldl (\<lambda>result i.
        result[i := clamp_current ((result ! i)\<lparr>current_value :=
            fadd (current_value (centroid ! i))
              (fmul coefficient
                 (fsub (current_value (centroid ! i)) (current_value (point ! i))))\<rparr>)])
       centroid [0..<n]"

text \<open>
  The order of the simplex points by value. \<open>std::sort\<close> leaves the order of equal
  values open; the model takes the order that an insertion sort gives.
\<close>

fun insert_by :: "fp list \<Rightarrow> nat \<Rightarrow> nat list \<Rightarrow> nat list" where
  "insert_by vals i [] = [i]"
| "insert_by vals i (j # js) =
     (if flt (vals ! i) (vals ! j) then i # j # js else j # insert_by vals i js)"

definition order_of :: "fp list \<Rightarrow> nat list" where
  "order_of vals = foldr (insert_by vals) [0..<length vals] []"

text \<open>The centroid of all points but the worst.\<close>

definition centroid_of :: "nat \<Rightarrow> Parameter list list \<Rightarrow> nat list \<Rightarrow> Parameter list" where
  "centroid_of n simplex order =
     (let summed =
            foldl (\<lambda>c i.
               foldl (\<lambda>c j. c[j := (c ! j)\<lparr>current_value :=
                   fadd (current_value (c ! j)) (current_value (simplex ! (order ! i) ! j))\<rparr>])
                 c [0..<n])
              (simplex ! (order ! 0)) [1..<length order - 1]
      in map (\<lambda>p. p\<lparr>current_value :=
                 fdiv (current_value p) (Fin (of_nat (length order - 1)))\<rparr>) summed)"

text \<open>The initial simplex: the loop that adds one point for each parameter.\<close>

fun init_points ::
  "nat list \<Rightarrow> Parameter list list \<times> fp list \<times> RFOptimizer
     \<Rightarrow> failure + Parameter list list \<times> fp list \<times> RFOptimizer" where
  "init_points [] st = Inr st"
| "init_points (i # is) (simplex, vals, opt) =
     (let p0 = simplex ! 0;
          point = p0[i := clamp_current ((p0 ! i)\<lparr>current_value :=
                     fadd (current_value (p0 ! i))
                       (fmul (Fin (5 / 100))
                          (fsub (max_value (p0 ! i)) (min_value (p0 ! i))))\<rparr>)]
      in seq (energy point opt)
           (\<lambda>r. init_points is (simplex @ [point], vals @ [fst r], snd r)))"

text \<open>The shrink step: the loop over the points \<open>1, 2, ...\<close> of the simplex.\<close>

fun shrink ::
  "fp \<Rightarrow> nat \<Rightarrow> nat list \<Rightarrow> Parameter list list \<times> fp list \<times> RFOptimizer
     \<Rightarrow> failure + Parameter list list \<times> fp list \<times> RFOptimizer" where
  "shrink sigma n [] st = Inr st"
| "shrink sigma n (i # is) (simplex, vals, opt) =
     (let moved =
            foldl (\<lambda>p j. p[j := (p ! j)\<lparr>current_value :=
                fadd (current_value (simplex ! 0 ! j))
                  (fmul sigma (fsub (current_value (p ! j))
                                 (current_value (simplex ! 0 ! j))))\<rparr>])
              (simplex ! i) [0..<n]
      in seq (energy moved opt)
           (\<lambda>r. shrink sigma n is (simplex[i := moved], vals[i := fst r], snd r)))"

text \<open>
  One round of the main loop after the convergence test: reflection, expansion,
  contraction or shrink. \<open>order[order.size() - 2]\<close> needs two points.
\<close>

definition nm_round ::
  "fp \<Rightarrow> fp \<Rightarrow> fp \<Rightarrow> fp \<Rightarrow> nat list \<Rightarrow> Parameter list list \<times> fp list \<times> RFOptimizer
     \<Rightarrow> failure + Parameter list list \<times> fp list \<times> RFOptimizer" where
  "nm_round alpha gamma rho sigma order st =
     (case st of (simplex, vals, opt) \<Rightarrow>
        let n = length (opt_parameters opt);
            worst = last order;
            best = order ! 0;
            centroid = centroid_of n simplex order
        in
          seq (energy (reflect n centroid (simplex ! worst) alpha) opt) (\<lambda>r.
            let reflected = reflect n centroid (simplex ! worst) alpha;
                reflected_value = fst r
            in
              if length order < 2 then Inl OutOfRange
              else if flt reflected_value (vals ! (order ! (length order - 2)))
                      \<and> fge reflected_value (vals ! best)
              then Inr (simplex[worst := reflected], vals[worst := reflected_value], snd r)
              else if flt reflected_value (vals ! best) then
                seq (energy (reflect n centroid (simplex ! worst) gamma) (snd r)) (\<lambda>e.
                  if flt (fst e) reflected_value
                  then Inr (simplex[worst := reflect n centroid (simplex ! worst) gamma],
                            vals[worst := fst e], snd e)
                  else Inr (simplex[worst := reflected], vals[worst := reflected_value], snd e))
              else
                seq (energy (reflect n centroid (simplex ! worst) (fneg rho)) (snd r)) (\<lambda>c.
                  if flt (fst c) (vals ! worst)
                  then Inr (simplex[worst := reflect n centroid (simplex ! worst) (fneg rho)],
                            vals[worst := fst c], snd c)
                  else shrink sigma n [1..<length simplex] (simplex, vals, snd c))))"

text \<open>The main loop, with the number of rounds that \<open>max_iterations\<close> still allows.\<close>

fun nm_loop ::
  "nat \<Rightarrow> fp \<Rightarrow> fp \<Rightarrow> fp \<Rightarrow> fp \<Rightarrow> fp \<Rightarrow> Parameter list list \<times> fp list \<times> RFOptimizer
     \<Rightarrow> failure + Parameter list list \<times> fp list \<times> RFOptimizer" where
  "nm_loop 0 alpha gamma rho sigma tolerance st = Inr st"
| "nm_loop (Suc k) alpha gamma rho sigma tolerance st =
     (let order = order_of (fst (snd st)) in
      if order = [] then Inl OutOfRange
      else if flt (fsub (fst (snd st) ! last order) (fst (snd st) ! (order ! 0))) tolerance
      then Inr st
      else seq (nm_round alpha gamma rho sigma order st)
             (nm_loop k alpha gamma rho sigma tolerance))"

text \<open>\<open>std::min_element\<close>: the position of the first smallest value.\<close>

definition min_element :: "fp list \<Rightarrow> nat" where
  "min_element vals =
     foldl (\<lambda>best i. if flt (vals ! i) (vals ! best) then i else best) 0 [1..<length vals]"

text \<open>
  \<open>NelderMead::optimize\<close>: the best point found and the optimizer after the run, whose
  member \<open>measured\<close> lists every vector that was passed to the measurement function.
\<close>

definition NelderMead_optimize ::
  "fp \<Rightarrow> fp \<Rightarrow> fp \<Rightarrow> fp \<Rightarrow> fp \<Rightarrow> int \<Rightarrow> RFOptimizer
     \<Rightarrow> failure + Parameter list \<times> RFOptimizer" where
  "NelderMead_optimize alpha gamma rho sigma tolerance max_iterations opt =
     (let (x0, opt1) = generateRandomIndividual opt in
      seq (energy x0 opt1) (\<lambda>r.
      seq (init_points [0..<length (opt_parameters opt)] ([x0], [fst r], snd r)) (\<lambda>st0.
      seq (nm_loop (nat max_iterations) alpha gamma rho sigma tolerance st0) (\<lambda>st.
        Inr (fst st ! min_element (fst (snd st)), snd (snd st))))))"

section \<open>Predicates of the statements and lemmas\<close>

text \<open>
  Two states of a component have the same shape when they agree on the pins, on the
  parameters and on the class; \<open>updateState\<close> changes nothing else.
\<close>

definition same_shape :: "Component \<Rightarrow> Component \<Rightarrow> bool" where
  "same_shape c c' =
     (pins c' = pins c \<and> parameters c' = parameters c
      \<and> type_of_derived (sub c') = type_of_derived (sub c))"

text \<open>
  A component is connected when it has its first two pins and both point to a node, as
  every pin does once \<open>addComponent\<close> has run.
\<close>

definition connected :: "Component \<Rightarrow> bool" where
  "connected c =
     (2 \<le> length (pins c) \<and> node (pins c ! 0) \<noteq> None \<and> node (pins c ! 1) \<noteq> None)"



text \<open>
  The standard model of floating-point arithmetic, with unit roundoff \<open>eps\<close> and no
  overflow or underflow: rounding has a relative error of at most \<open>eps\<close> and is
  monotone; \<open>log10\<close> of a positive number is a double (rounding leaves it as it is) and
  does not decrease when its argument grows; \<open>pow(10, y)\<close> is finite and does not
  decrease when \<open>y\<close> grows. Nothing is assumed on the accuracy of the two functions.
\<close>

definition faithful :: "real \<Rightarrow> numlib \<Rightarrow> bool" where
  "faithful eps L \<longleftrightarrow>
     0 \<le> eps \<and> eps \<le> 1
     \<and> (\<forall>x. \<bar>round_double L x - x\<bar> \<le> eps * \<bar>x\<bar>)
     \<and> (\<forall>x y. x \<le> y \<longrightarrow> round_double L x \<le> round_double L y)
     \<and> (\<forall>x. 0 < x \<longrightarrow> (\<exists>v. lib_log10 L (Fin x) = Fin v \<and> round_double L v = v))
     \<and> (\<forall>x y v w. 0 < x \<longrightarrow> x \<le> y \<longrightarrow> lib_log10 L (Fin x) = Fin v
            \<longrightarrow> lib_log10 L (Fin y) = Fin w \<longrightarrow> v \<le> w)
     \<and> (\<forall>y. \<exists>w. lib_pow10 L (Fin y) = Fin w)
     \<and> (\<forall>y y' w w'. y \<le> y' \<longrightarrow> lib_pow10 L (Fin y) = Fin w
            \<longrightarrow> lib_pow10 L (Fin y') = Fin w' \<longrightarrow> w \<le> w')"




text \<open>A parameter with finite bounds and a finite value inside them.\<close>

definition within_bounds :: "Parameter \<Rightarrow> bool" where
  "within_bounds p =
     (\<exists>lo hi v. min_value p = Fin lo \<and> max_value p = Fin hi \<and> current_value p = Fin v
        \<and> lo \<le> v \<and> v \<le> hi)"

section \<open>Concrete circuits\<close>

text \<open>
  An instance of the numerical library, for running the model on concrete circuits: its
  solver returns the right-hand side (which solves every system whose right-hand side is
  zero), the operations on special values return NaN, arithmetic is exact (nothing is
  rounded, and the logarithm and the power are the exact ones), and a complex value is
  stored in a \<open>double\<close> by taking its real part.
\<close>

definition lib0 :: numlib where
  "lib0 = \<lparr>qr_solve = (\<lambda>A b. b),
           cmul_special = (\<lambda>u v. (NaN, NaN)),
           cdiv_special = (\<lambda>u v. (NaN, NaN)),
           opamp_output = (\<lambda>g vp vn vsat. (NaN, NaN)),
           round_double = (\<lambda>x. x),
           lib_log10 = flog10,
           lib_pow10 = fpow10,
           complex_to_double = fst\<rparr>"

text \<open>\<open>pins_[i]->connectTo(nd)\<close>, called by the code that builds a circuit.\<close>

definition connectTo :: "nat \<Rightarrow> nat option \<Rightarrow> Component \<Rightarrow> Component" where
  "connectTo i nd c = c\<lparr>pins := (pins c)[i := (pins c ! i)\<lparr>node := nd\<rparr>]\<rparr>"

text \<open>
  The voltage divider: a 10 V DC source across R1 = 1 kOhm in series with R2 = 2 kOhm.
  R1 is added first and receives the nodes 0 and 1; R2 goes from node 1 (the midpoint) to
  the new node 2; the source goes from node 0 to node 2, which is the ground node.
\<close>

definition series_circuit :: CircuitAnalyzer where
  "series_circuit =
     setGroundNode (Some 2)
       (addComponent
          (connectTo 1 (Some 2) (connectTo 0 (Some 0) (new_VoltageSource ''V1'' (Fin 10) (Fin 0))))
          (addComponent (connectTo 0 (Some 1) (new_Resistor ''R2'' (Fin 2000)))
             (addComponent (new_Resistor ''R1'' (Fin 1000)) new_CircuitAnalyzer)))"

definition series_A :: "cdouble list list" where
  "series_A = [[(Fin (1 / 1000), Fin 0), (Fin (- (1 / 1000)), Fin 0)],
               [(Fin (- (1 / 1000)), Fin 0), (Fin (3 / 2000), Fin 0)]]"

text \<open>
  The circuit that example.cpp builds: a source, a resistor, a capacitor and a resistor,
  each added with unconnected pins, and the second node of the source as ground.
\<close>

definition example_circuit :: CircuitAnalyzer where
  "example_circuit =
     setGroundNode (Some 1)
       (addComponent (new_Resistor ''R2'' (Fin 2000))
          (addComponent (new_Capacitor ''C1'' (Fin (1 / 10 ^ 6)))
             (addComponent (new_Resistor ''R1'' (Fin 1000))
                (addComponent (new_VoltageSource ''V1'' (Fin 10) (Fin 0))
                   new_CircuitAnalyzer))))"

text \<open>
  A circuit with a floating part: a resistor between the nodes 0 and 1, and a source
  between the nodes 2 and 3 that nothing else touches. It is taken without a ground node,
  and with node 3 as the ground node.
\<close>

definition ungrounded_circuit :: CircuitAnalyzer where
  "ungrounded_circuit =
     addComponent (new_VoltageSource ''V1'' (Fin 10) (Fin 0))
       (addComponent (new_Resistor ''R1'' (Fin 1000)) new_CircuitAnalyzer)"

definition floating_circuit :: CircuitAnalyzer where
  "floating_circuit = setGroundNode (Some 3) ungrounded_circuit"

definition floating_A :: "cdouble list list" where
  "floating_A = [[(Fin (1 / 1000), Fin 0), (Fin (- (1 / 1000)), Fin 0), czero],
                 [(Fin (- (1 / 1000)), Fin 0), (Fin (1 / 1000), Fin 0), czero],
                 [czero, czero, czero]]"

text \<open>A lone DC source of 10 V, with and without a ground node.\<close>

definition source_only :: CircuitAnalyzer where
  "source_only = addComponent (new_VoltageSource ''V1'' (Fin 10) (Fin 0)) new_CircuitAnalyzer"

definition source_grounded :: CircuitAnalyzer where
  "source_grounded = setGroundNode (Some 1) source_only"

text \<open>
  A Nelder-Mead run on one parameter \<open>x\<close> in \<open>[0, 10]\<close> with one objective to minimise.
  The measurement is \<open>0\<close> at \<open>x = 9.8\<close>, \<open>1\<close> at \<open>x = 10\<close> and \<open>5\<close> elsewhere; every
  draw of the random engine is \<open>0.98\<close>.
\<close>

definition nm_example :: RFOptimizer where
  "nm_example =
     \<lparr>opt_parameters =
        [\<lparr>par_name = ''x'', min_value = Fin 0, max_value = Fin 10, current_value = Fin 5\<rparr>],
      objectives =
        [\<lparr>obj_name = ''cost'', obj_type = MINIMIZE, target_value = Fin 0, weight = Fin 1\<rparr>],
      measurement_func =
        (\<lambda>ps. [if current_value (ps ! 0) = Fin (49 / 5) then Fin 0
                else if current_value (ps ! 0) = Fin 10 then Fin 1 else Fin 5]),
      rng_draws = (\<lambda>k. 49 / 50),
      rng_pos = 0,
      measured = []\<rparr>"

section \<open>Evaluation\<close>

text \<open>The defining equations that \<open>simp\<close> unfolds to run the model on a concrete input.\<close>

lemmas num_defs =
  fsub_def signed_inf_def fgt_def fge_def czero_def cfinite_def cadd_def csub_def cscale_def
  cdiv_real_def cconj_def cnorm_def two_pi_def

lemmas comp_defs =
  getType_def new_Component_def addPin_def setParameter_def getParameter_def new_Pin_def
  new_Resistor_def new_Capacitor_def new_Inductor_def new_VoltageSource_def new_Diode_def
  new_OpAmp_def pin_voltage_def pins_difference_def VoltageSource_getVoltageAcross_def
  OpAmp_getVoltageAcross_def getVoltageAcross_def Resistor_getImpedance_def
  Capacitor_getImpedance_def Inductor_getImpedance_def diode_current_def
  Diode_getImpedance_def getImpedance_def getCurrentThrough_def updateState_def

lemmas an_defs =
  new_CircuitAnalyzer_def seq_def addComponent_def setGroundNode_def getNodeVoltages_def
  getNodeIndex_def zero_matrix_def in_matrix_def coeff_def coeff_set_def coeff_add_def
  coeff_sub_def vec_set_def vec_get_def stamp_admittance_def stamp_conductance_def
  stamp_source_def buildMNA_def setCurrent_def solve_def updateComponents_def analyze_def
  connectTo_def lib0_def Let_def eval_nat_numeral

section \<open>Properties of Component\<close>

lemma dom_setParameters:
  "dom (parameters (setParameters kvs c)) = dom (parameters c) \<union> fst ` set kvs"
  by (induction kvs arbitrary: c) (auto simp: setParameter_def)

text \<open>
  C10. A parameter name that the constructor did not set and that no later
  \<open>setParameter\<close> call has set reads as \<open>0.0\<close>, and the query leaves the component, and
  so its parameter map, as it was.
\<close>

theorem getParameter_unset_default:
  assumes "k \<notin> dom (parameters c0)" and "k \<notin> fst ` set kvs"
  shows "getParameter_call (setParameters kvs c0) k = (Fin 0, setParameters kvs c0)"
proof -
  have "k \<notin> dom (parameters (setParameters kvs c0))"
    using assms by (simp add: dom_setParameters)
  then have "parameters (setParameters kvs c0) k = None"
    by (simp add: domIff)
  then show ?thesis
    by (simp add: getParameter_call_def getParameter_def)
qed

theorem getParameter_unset_default_witness:
  "getParameter_call
     (setParameters [(''resistance'', Fin 1000)] (new_Component ''R1'' Resistor)) ''capacitance''
   = (Fin 0, setParameters [(''resistance'', Fin 1000)] (new_Component ''R1'' Resistor))"
  using getParameter_unset_default
    [of "''capacitance''" "new_Component ''R1'' Resistor" "[(''resistance'', Fin 1000)]"]
  by (simp add: new_Component_def)

section \<open>Impedance at the numerical edge cases\<close>

text \<open>
  C7, as stated, fails: the impedance that a capacitor of 1 uF returns at frequency \<open>0\<close>
  is not a finite value.
\<close>

theorem capacitor_dc_impedance_not_finite:
  "\<not> cfinite (Capacitor_getImpedance (new_Capacitor ''C1'' (Fin (1 / 10 ^ 6))) (Fin 0))"
  by (simp add: Capacitor_getImpedance_def cfinite_def)

text \<open>
  C7, amended. At frequency \<open>0\<close> the virtual call \<open>getImpedance\<close> on a capacitor
  returns the impedance with real part \<open>+infinity\<close> and imaginary part \<open>0\<close>, whatever
  the capacitance, the charge and the node voltages are: the value is not NaN, and it is
  not finite.
\<close>

theorem impedance_edge_values:
  assumes "sub c = Capacitor q f0"
  shows "getImpedance V c (Fin 0) = Inr (PInf, Fin 0)"
  using assms by (simp add: getImpedance_def Capacitor_getImpedance_def)

theorem impedance_edge_values_witness:
  "getImpedance (\<lambda>a. czero) (new_Capacitor ''C1'' (Fin (1 / 10 ^ 6))) (Fin 0) = Inr (PInf, Fin 0)"
  using impedance_edge_values [of "new_Capacitor ''C1'' (Fin (1 / 10 ^ 6))" "Fin 0" "Fin 0"
      "\<lambda>a. czero"]
  by (simp add: comp_defs)

section \<open>Stability\<close>














section \<open>The voltage divider\<close>

text \<open>
  The matrix has one row less than there are nodes, but \<open>getNodeIndex\<close> returns the
  position of a node in the whole list: a stamp on the last node is outside the matrix
  unless that node is the ground node. The circuit of example.cpp stops there.
\<close>

lemma example_circuit_aborts: "analyze L (Fin 0) example_circuit = Inl EigenAssertion"
  by (simp add: example_circuit_def num_defs comp_defs an_defs)

text \<open>
  With the assembled system of the voltage divider, a solution is the zero vector only
  (the matrix is regular).
\<close>

lemma series_system_regular:
  fixes x0 x1 :: real
  assumes "x0 / 1000 - x1 / 1000 = 0" and "- (x0 / 1000) + 3 * x1 / 2000 = 0"
  shows "x0 = 0 \<and> x1 = 0"
  using assms by auto

text \<open>
  C1 fails on the code. \<open>addComponent\<close> never enters a source in \<open>voltage_sources\<close>, so
  \<open>buildMNA\<close> assembles the two-by-two conductance system of the resistors with a zero
  right-hand side and no row for the source. With a solver that returns the solution of
  this system, \<open>analyze(0)\<close> leaves every node of the divider at 0 V: the midpoint does
  not read 6.667 V.
\<close>

theorem series_divider_reads_zero:
  assumes "qr_solve L series_A [czero, czero] = [czero, czero]"
  shows "(case analyze L (Fin 0) series_circuit of
            Inl e \<Rightarrow> False
          | Inr s' \<Rightarrow> mna_A s' = series_A \<and> mna_b s' = [czero, czero]
                      \<and> getNodeVoltages s' = [czero, czero, czero])"
proof -
  have build: "buildMNA L (series_circuit\<lparr>current_frequency := Fin 0\<rparr>)
      = Inr (series_circuit\<lparr>current_frequency := Fin 0, mna_A := series_A,
                             mna_b := [czero, czero]\<rparr>)"
    by (simp add: series_circuit_def series_A_def num_defs comp_defs an_defs)
  have x: "qr_solve L [[(Fin (1 / 1000), Fin 0), (Fin (- (1 / 1000)), Fin 0)],
                       [(Fin (- (1 / 1000)), Fin 0), (Fin (3 / 2000), Fin 0)]]
             [(Fin 0, Fin 0), (Fin 0, Fin 0)] = [(Fin 0, Fin 0), (Fin 0, Fin 0)]"
    using assms by (simp add: czero_def series_A_def)
  show ?thesis
    unfolding analyze_def build
    by (simp add: x series_circuit_def series_A_def num_defs comp_defs an_defs)
qed

theorem series_divider_reads_zero_witness:
  "(case analyze lib0 (Fin 0) series_circuit of
      Inl e \<Rightarrow> False
    | Inr s' \<Rightarrow> getNodeVoltages s' ! 1 = czero)"
  using series_divider_reads_zero [of lib0]
  by (auto simp: lib0_def split: sum.splits)

section \<open>Lemmas on the analyzer\<close>

lemma seq_Inr: "seq r f = Inr y \<longleftrightarrow> (\<exists>x. r = Inr x \<and> f x = Inr y)"
  by (cases r) (simp_all add: seq_def)

lemma seq_Inr_simp [simp]: "seq (Inr x) f = f x"
  by (simp add: seq_def)

lemma seq_Inl_simp [simp]: "seq (Inl e) f = Inl e"
  by (simp add: seq_def)

subsection \<open>Writing the solution back\<close>

lemma write_voltages_outside:
  "write_voltages x as i V = Inr V' \<Longrightarrow> a \<notin> set as \<Longrightarrow> V' a = V a"
proof (induction as arbitrary: i V)
  case Nil
  then show ?case by simp
next
  case (Cons b as)
  from Cons.prems(1) obtain v where v: "vec_get x i = Inr v"
    and rest: "write_voltages x as (i + 1) (V(b := v)) = Inr V'"
    by (auto simp: seq_Inr)
  from Cons.IH [OF rest] Cons.prems(2) show ?case by simp
qed


lemma write_voltages_ok:
  "0 \<le> i \<Longrightarrow> i + int (length as) \<le> int (length x) \<Longrightarrow> \<exists>V'. write_voltages x as i V = Inr V'"
proof (induction as arbitrary: i V)
  case Nil
  then show ?case by simp
next
  case (Cons b as)
  then have "vec_get x i = Inr (x ! nat i)" by (simp add: vec_get_def)
  moreover from Cons.prems have "\<exists>V'. write_voltages x as (i + 1) (V(b := x ! nat i)) = Inr V'"
    by (intro Cons.IH) auto
  ultimately show ?case by simp
qed

lemma write_voltages_nth:
  "write_voltages x as i V = Inr V' \<Longrightarrow> distinct as \<Longrightarrow> 0 \<le> i \<Longrightarrow> k < length as
     \<Longrightarrow> V' (as ! k) = x ! (nat i + k)"
proof (induction as arbitrary: i V k)
  case Nil
  then show ?case by simp
next
  case (Cons b as)
  from Cons.prems(1) obtain v where v: "vec_get x i = Inr v"
    and rest: "write_voltages x as (i + 1) (V(b := v)) = Inr V'"
    by (auto simp: seq_Inr)
  show ?case
  proof (cases k)
    case 0
    from Cons.prems(2) have "b \<notin> set as" by simp
    from write_voltages_outside [OF rest this] v Cons.prems(3) 0 show ?thesis
      by (simp add: vec_get_def split: if_splits)
  next
    case (Suc j)
    with Cons.prems have "V' (as ! j) = x ! (nat (i + 1) + j)"
      by (intro Cons.IH [OF rest]) auto
    with Suc Cons.prems(3) show ?thesis by (simp add: nat_add_distrib)
  qed
qed

subsection \<open>State updates keep the shape of a component\<close>

lemma updateState_shape: "updateState L V dt c = Inr c' \<Longrightarrow> same_shape c c'"
  by (cases "sub c") (auto simp: updateState_def same_shape_def seq_Inr split: sum.splits)



lemma update_all_shape: "update_all L V dt cs = Inr cs' \<Longrightarrow> list_all2 same_shape cs cs'"
proof (induction cs arbitrary: cs')
  case Nil
  then show ?case by simp
next
  case (Cons c cs)
  then show ?case by (auto simp: seq_Inr dest: updateState_shape)
qed


subsection \<open>Stamping\<close>













subsection \<open>The phases of analyze when no source is registered\<close>

lemma buildMNA_no_sources:
  assumes "voltage_sources s = []"
  shows "buildMNA L s = Inr s' \<longleftrightarrow>
    nodes s \<noteq> [] \<and>
    (\<exists>A. stamp_components L s (components s) (zero_matrix (length (nodes s) - 1)) = Inr A
        \<and> s' = s\<lparr>mna_A := A, mna_b := replicate (length (nodes s) - 1) czero\<rparr>)"
proof -
  have n: "nat (int (length (nodes s)) - 1) = length (nodes s) - 1" by simp
  have neg: "(int (length (nodes s)) - 1 < 0) = (nodes s = [])" by auto
  show ?thesis
    unfolding buildMNA_def Let_def assms
    by (auto simp: n neg seq_Inr)
qed

lemma solve_no_sources:
  assumes "voltage_sources s = []"
  shows "solve L s = Inr s' \<longleftrightarrow>
    nodes s \<noteq> [] \<and>
    (\<exists>V. write_voltages (qr_solve L (mna_A s) (mna_b s)) (butlast (nodes s)) 0 (voltage s) = Inr V
        \<and> s' = s\<lparr>voltage := V\<rparr>)"
  unfolding solve_def Let_def assms
  by (auto simp: seq_Inr)

lemma updateComponents_Inr:
  "updateComponents L s = Inr s' \<longleftrightarrow>
     (\<exists>cs. update_all L (voltage s) (timestep s) (components s) = Inr cs \<and> s' = s\<lparr>components := cs\<rparr>)"
  by (auto simp: updateComponents_def seq_Inr)

lemma analyze_no_sources:
  assumes "voltage_sources s = []"
  shows "analyze L f s = Inr s' \<longleftrightarrow>
    nodes s \<noteq> [] \<and>
    (\<exists>A V cs.
        stamp_components L (s\<lparr>current_frequency := f\<rparr>) (components s)
          (zero_matrix (length (nodes s) - 1)) = Inr A
      \<and> write_voltages (qr_solve L A (replicate (length (nodes s) - 1) czero))
          (butlast (nodes s)) 0 (voltage s) = Inr V
      \<and> update_all L V (timestep s) (components s) = Inr cs
      \<and> s' = s\<lparr>current_frequency := f, mna_A := A,
                mna_b := replicate (length (nodes s) - 1) czero, voltage := V,
                components := cs\<rparr>)"
proof -
  have vs: "voltage_sources (s\<lparr>current_frequency := f\<rparr>) = []" using assms by simp
  show ?thesis
    unfolding analyze_def seq_Inr buildMNA_no_sources [OF vs]
    by (auto simp: solve_no_sources assms updateComponents_Inr)
qed

lemma updateState_connected:
  assumes "connected c"
  shows "\<exists>c'. updateState L V dt c = Inr c'"
proof -
  from assms obtain a b where "node (pins c ! 0) = Some a" "node (pins c ! 1) = Some b" "2 \<le> length (pins c)"
    by (auto simp: connected_def)
  then have "pin_voltage V c 0 = Inr (V a)" "pin_voltage V c 1 = Inr (V b)"
    by (auto simp: pin_voltage_def)
  then show ?thesis
    by (cases "sub c")
       (simp_all add: updateState_def getCurrentThrough_def getVoltageAcross_def
          pins_difference_def OpAmp_getVoltageAcross_def)
qed

lemma update_all_connected:
  "\<forall>c\<in>set cs. connected c \<Longrightarrow> \<exists>cs'. update_all L V dt cs = Inr cs'"
proof (induction cs)
  case Nil
  then show ?case by simp
next
  case (Cons c cs)
  then obtain cs' where "update_all L V dt cs = Inr cs'" by auto
  moreover from Cons.prems updateState_connected [of c L V dt]
  obtain c' where "updateState L V dt c = Inr c'" by auto
  ultimately show ?case by simp
qed

lemma index_from_distinct:
  "distinct xs \<Longrightarrow> i < length xs \<Longrightarrow> index_from xs (xs ! i) k = int (k + i)"
proof (induction xs arbitrary: i k)
  case Nil
  then show ?case by simp
next
  case (Cons x xs)
  show ?case
  proof (cases i)
    case 0
    then show ?thesis by simp
  next
    case (Suc j)
    with Cons.prems have "xs ! j \<noteq> x" by auto
    moreover from Suc Cons.prems have "index_from xs (xs ! j) (k + 1) = int (k + 1 + j)"
      by (intro Cons.IH) auto
    ultimately show ?thesis using Suc by simp
  qed
qed

text \<open>The general form behind C2 and C5.\<close>

lemma analyze_returns:
  assumes vs: "voltage_sources s = []"
    and dist: "distinct (nodes s)"
    and conn: "\<forall>c\<in>set (components s). connected c"
    and build: "buildMNA L (s\<lparr>current_frequency := f\<rparr>) = Inr s1"
    and len: "length (qr_solve L (mna_A s1) (mna_b s1)) = length (mna_b s1)"
  shows "\<exists>s'. analyze L f s = Inr s' \<and> nodes s' = nodes s \<and> ground_node s' = ground_node s
            \<and> butlast (getNodeVoltages s') = qr_solve L (mna_A s1) (mna_b s1)"
proof -
  let ?n = "length (nodes s) - 1"
  have vs': "voltage_sources (s\<lparr>current_frequency := f\<rparr>) = []" using vs by simp
  from build [unfolded buildMNA_no_sources [OF vs']]
  obtain A where ne: "nodes s \<noteq> []"
    and A: "stamp_components L (s\<lparr>current_frequency := f\<rparr>) (components s) (zero_matrix ?n) = Inr A"
    and s1: "s1 = s\<lparr>current_frequency := f, mna_A := A, mna_b := replicate ?n czero\<rparr>"
    by auto
  let ?x = "qr_solve L A (replicate ?n czero)"
  have lx: "length ?x = ?n" using len s1 by simp
  then obtain V where V: "write_voltages ?x (butlast (nodes s)) 0 (voltage s) = Inr V"
    using write_voltages_ok [of 0 "butlast (nodes s)" ?x "voltage s"] by auto
  from update_all_connected [OF conn] obtain cs where
    cs: "update_all L V (timestep s) (components s) = Inr cs" by blast
  let ?s' = "s\<lparr>current_frequency := f, mna_A := A, mna_b := replicate ?n czero, voltage := V,
                components := cs\<rparr>"
  have run: "analyze L f s = Inr ?s'"
    using ne A V cs by (subst analyze_no_sources [OF vs]) blast
  have "map V (butlast (nodes s)) = ?x"
  proof (rule nth_equalityI)
    show "length (map V (butlast (nodes s))) = length ?x" using lx by simp
  next
    fix k assume "k < length (map V (butlast (nodes s)))"
    then have k: "k < length (butlast (nodes s))" by simp
    have "distinct (butlast (nodes s))" using dist by (rule distinct_butlast)
    from write_voltages_nth [OF V this _ k] show "map V (butlast (nodes s)) ! k = ?x ! k"
      using k by simp
  qed
  then have "butlast (getNodeVoltages ?s') = qr_solve L (mna_A s1) (mna_b s1)"
    by (simp add: getNodeVoltages_def map_butlast s1)
  with run show ?thesis by auto
qed


section \<open>Repeated analysis\<close>



section \<open>What the operations of the analyzer keep\<close>

text \<open>
  No operation of the class enters anything in \<open>voltage_sources\<close>; \<open>addComponent\<close>
  leaves every pin of the new component connected, and the node list holds distinct
  addresses. These are the hypotheses of the theorems on \<open>analyze\<close>.
\<close>

lemma buildMNA_fields:
  "buildMNA L s = Inr s' \<Longrightarrow> \<exists>A b. s' = s\<lparr>mna_A := A, mna_b := b\<rparr>"
  by (auto simp: buildMNA_def Let_def seq_Inr split: if_splits)

lemma solve_fields:
  "solve L s = Inr s' \<Longrightarrow> \<exists>V cs. s' = s\<lparr>voltage := V, components := cs\<rparr>"
  by (auto simp: solve_def Let_def seq_Inr split: if_splits)

lemma analyze_fields:
  assumes "analyze L f s = Inr s'"
  shows "frequency_response s' = frequency_response s \<and> current_frequency s' = f
         \<and> nodes s' = nodes s"
proof -
  from assms obtain s1 s2 where 1: "buildMNA L (s\<lparr>current_frequency := f\<rparr>) = Inr s1"
    and 2: "solve L s1 = Inr s2" and 3: "updateComponents L s2 = Inr s'"
    by (auto simp: analyze_def seq_Inr)
  from buildMNA_fields [OF 1] solve_fields [OF 2] 3 show ?thesis
    by (auto simp: updateComponents_Inr)
qed

lemma ac_sweep_dom:
  "ac_sweep L fs s = Inr s' \<Longrightarrow> dom (frequency_response s') = dom (frequency_response s) \<union> set fs"
proof (induction fs arbitrary: s)
  case Nil
  then show ?case by simp
next
  case (Cons f fs)
  from Cons.prems obtain s1 where a: "analyze L f s = Inr s1"
    and r: "ac_sweep L fs (s1\<lparr>frequency_response := (frequency_response s1)(f \<mapsto> getNodeVoltages s1)\<rparr>) = Inr s'"
    by (auto simp: seq_Inr)
  from Cons.IH [OF r] analyze_fields [OF a] show ?case by auto
qed

lemma ac_sweep_last:
  "ac_sweep L fs s = Inr s' \<Longrightarrow> fs \<noteq> [] \<Longrightarrow>
     current_frequency s' = last fs \<and> frequency_response s' (last fs) = Some (getNodeVoltages s')"
proof (induction fs arbitrary: s)
  case Nil
  then show ?case by simp
next
  case (Cons f fs)
  from Cons.prems obtain s1 where a: "analyze L f s = Inr s1"
    and r: "ac_sweep L fs (s1\<lparr>frequency_response := (frequency_response s1)(f \<mapsto> getNodeVoltages s1)\<rparr>) = Inr s'"
    by (auto simp: seq_Inr)
  show ?case
  proof (cases "fs = []")
    case True
    with r analyze_fields [OF a] show ?thesis by (auto simp: getNodeVoltages_def)
  next
    case False
    with Cons.IH [OF r] show ?thesis by simp
  qed
qed

lemma ac_sweep_other:
  "ac_sweep L fs s = Inr s' \<Longrightarrow> k \<notin> set fs \<Longrightarrow> frequency_response s' k = frequency_response s k"
proof (induction fs arbitrary: s)
  case Nil
  then show ?case by simp
next
  case (Cons f fs)
  from Cons.prems obtain s1 where a: "analyze L f s = Inr s1"
    and r: "ac_sweep L fs (s1\<lparr>frequency_response := (frequency_response s1)(f \<mapsto> getNodeVoltages s1)\<rparr>) = Inr s'"
    by (auto simp: seq_Inr)
  from Cons.IH [OF r] Cons.prems(2) analyze_fields [OF a] show ?case by auto
qed

text \<open>
  The analysis number \<open>i\<close> of a sweep starts in the state that the sweep of the first
  \<open>i\<close> frequencies has reached, and the node voltages it leaves are the entry of its
  frequency at the end of the sweep, unless a later analysis has the same frequency.
\<close>

lemma ac_sweep_records:
  assumes "ac_sweep L fs s = Inr s'" and "i < length fs"
  shows "\<exists>t u. ac_sweep L (take i fs) s = Inr t \<and> analyze L (fs ! i) t = Inr u
           \<and> (fs ! i \<notin> set (drop (Suc i) fs) \<longrightarrow>
                 frequency_response s' (fs ! i) = Some (getNodeVoltages u))"
  using assms
proof (induction fs arbitrary: s i)
  case Nil
  then show ?case by simp
next
  case (Cons f fs)
  from Cons.prems obtain s1 where a: "analyze L f s = Inr s1"
    and r: "ac_sweep L fs (s1\<lparr>frequency_response := (frequency_response s1)(f \<mapsto> getNodeVoltages s1)\<rparr>) = Inr s'"
    by (auto simp: seq_Inr)
  show ?case
  proof (cases i)
    case 0
    have "f \<notin> set fs \<longrightarrow> frequency_response s' f = Some (getNodeVoltages s1)"
      using ac_sweep_other [OF r, of f] by simp
    with a 0 show ?thesis by auto
  next
    case (Suc j)
    with Cons.prems have "j < length fs" by simp
    from Cons.IH [OF r this] a Suc show ?thesis by simp
  qed
qed

lemma connect_pins_sources:
  "voltage_sources (snd (connect_pins ps s)) = voltage_sources s
   \<and> components (snd (connect_pins ps s)) = components s"
  by (induction ps arbitrary: s) (simp_all add: Let_def case_prod_beta split: option.splits)

lemma addComponent_sources: "voltage_sources (addComponent c s) = voltage_sources s"
  using connect_pins_sources [of "pins c" s]
  by (simp add: addComponent_def case_prod_beta)

lemma setGroundNode_sources: "voltage_sources (setGroundNode n s) = voltage_sources s"
  by (simp add: setGroundNode_def)

lemma analyze_sources: "analyze L f s = Inr s' \<Longrightarrow> voltage_sources s' = voltage_sources s"
proof -
  assume "analyze L f s = Inr s'"
  then obtain s1 s2 where 1: "buildMNA L (s\<lparr>current_frequency := f\<rparr>) = Inr s1"
    and 2: "solve L s1 = Inr s2" and 3: "updateComponents L s2 = Inr s'"
    by (auto simp: analyze_def seq_Inr)
  from buildMNA_fields [OF 1] solve_fields [OF 2] 3 show ?thesis
    by (auto simp: updateComponents_Inr)
qed

lemma connect_pins_nodes:
  "length (fst (connect_pins ps s)) = length ps
   \<and> (\<forall>p\<in>set (fst (connect_pins ps s)). node p \<noteq> None)"
  by (induction ps arbitrary: s) (auto simp: Let_def case_prod_beta split: option.splits)

lemma addComponent_connected:
  assumes "2 \<le> length (pins c)" and "\<forall>d\<in>set (components s). connected d"
  shows "\<forall>d\<in>set (components (addComponent c s)). connected d"
proof -
  obtain ps s1 where cp: "connect_pins (pins c) s = (ps, s1)" by (cases "connect_pins (pins c) s")
  from connect_pins_nodes [of "pins c" s] cp assms(1)
  have l: "2 \<le> length ps" and n: "\<forall>p\<in>set ps. node p \<noteq> None" by auto
  from l have "ps ! 0 \<in> set ps" "ps ! 1 \<in> set ps" by (auto intro: nth_mem)
  with l n have "connected (c\<lparr>pins := ps\<rparr>)" by (simp add: connected_def)
  moreover from connect_pins_sources [of "pins c" s] cp have "components s1 = components s" by simp
  ultimately show ?thesis using assms(2) cp by (auto simp: addComponent_def)
qed

text \<open>The node list holds distinct, allocated addresses.\<close>

lemma connect_pins_distinct:
  assumes "distinct (nodes s)" and "\<forall>a\<in>set (nodes s). a < node_count s"
  shows "distinct (nodes (snd (connect_pins ps s)))
         \<and> (\<forall>a\<in>set (nodes (snd (connect_pins ps s))). a < node_count (snd (connect_pins ps s)))"
  using assms
proof (induction ps arbitrary: s)
  case Nil
  then show ?case by simp
next
  case (Cons p ps)
  show ?case
  proof (cases "node p")
    case None
    let ?s1 = "s\<lparr>next_node_id := next_node_id s + 1, node_count := node_count s + 1,
                  voltage := (voltage s)(node_count s := czero), nodes := nodes s @ [node_count s]\<rparr>"
    have "distinct (nodes ?s1)" "\<forall>a\<in>set (nodes ?s1). a < node_count ?s1"
      using Cons.prems by auto
    from Cons.IH [OF this] None show ?thesis
      by (simp add: Let_def case_prod_beta)
  next
    case (Some a)
    with Cons.IH [OF Cons.prems] show ?thesis
      by (simp add: Let_def case_prod_beta)
  qed
qed

lemma addComponent_distinct:
  assumes "distinct (nodes s)" and "\<forall>a\<in>set (nodes s). a < node_count s"
  shows "distinct (nodes (addComponent c s))
         \<and> (\<forall>a\<in>set (nodes (addComponent c s)). a < node_count (addComponent c s))"
  using connect_pins_distinct [OF assms, of "pins c"]
  by (simp add: addComponent_def case_prod_beta)

section \<open>Singular systems and missing ground\<close>

lemma floating_build:
  "buildMNA L (floating_circuit\<lparr>current_frequency := Fin 0\<rparr>)
     = Inr (floating_circuit\<lparr>current_frequency := Fin 0, mna_A := floating_A,
                               mna_b := [czero, czero, czero]\<rparr>)"
  by (simp add: floating_circuit_def ungrounded_circuit_def floating_A_def num_defs comp_defs an_defs)

lemma ungrounded_build:
  "buildMNA L (ungrounded_circuit\<lparr>current_frequency := Fin 0\<rparr>)
     = Inr (ungrounded_circuit\<lparr>current_frequency := Fin 0, mna_A := floating_A,
                               mna_b := [czero, czero, czero]\<rparr>)"
  by (simp add: ungrounded_circuit_def floating_A_def num_defs comp_defs an_defs)

lemma ungrounded_facts:
  "voltage_sources ungrounded_circuit = []" "nodes ungrounded_circuit = [0, 1, 2, 3]"
  "ground_node ungrounded_circuit = None"
  "\<forall>c\<in>set (components ungrounded_circuit). connected c"
  by (simp_all add: ungrounded_circuit_def connected_def num_defs comp_defs an_defs)

text \<open>
  C2, as stated, fails. In the circuit with the floating part, node 2 has no path to the
  ground node and its row of the assembled matrix is zero, so the matrix is singular; yet
  \<open>analyze(0)\<close> returns without a failure and the node voltages are written.
\<close>

theorem floating_circuit_analysis_returns:
  "(case analyze lib0 (Fin 0) floating_circuit of
      Inl e \<Rightarrow> False
    | Inr s' \<Rightarrow> mna_A s' = floating_A \<and> mna_A s' ! 2 = [czero, czero, czero]
                \<and> getNodeVoltages s' = [czero, czero, czero, czero])"
  by (simp add: floating_circuit_def ungrounded_circuit_def floating_A_def num_defs comp_defs an_defs)

text \<open>
  C2, amended. \<open>analyze(frequency)\<close> makes no test of the assembled matrix and reports
  no singular matrix. On an analyzer with connected components and no registered source,
  whenever the assembly stays inside the matrix and the solver returns a vector of the
  size of the system, the call returns, and the nodes before the last of the node list
  hold exactly what the solver returned, whatever the matrix is.
\<close>

theorem analyze_writes_solver_output:
  assumes "voltage_sources s = []"
    and "distinct (nodes s)"
    and "\<forall>c\<in>set (components s). connected c"
    and "buildMNA L (s\<lparr>current_frequency := f\<rparr>) = Inr s1"
    and "length (qr_solve L (mna_A s1) (mna_b s1)) = length (mna_b s1)"
  shows "\<exists>s'. analyze L f s = Inr s'
           \<and> butlast (getNodeVoltages s') = qr_solve L (mna_A s1) (mna_b s1)"
  using analyze_returns [OF assms] by blast

theorem analyze_writes_solver_output_witness:
  "\<exists>s'. analyze lib0 (Fin 0) floating_circuit = Inr s'
      \<and> butlast (getNodeVoltages s') = [czero, czero, czero]"
proof -
  have 1: "voltage_sources floating_circuit = []" "distinct (nodes floating_circuit)"
    "\<forall>c\<in>set (components floating_circuit). connected c"
    using ungrounded_facts by (simp_all add: floating_circuit_def setGroundNode_def)
  have 2: "length (qr_solve lib0
       (mna_A (floating_circuit\<lparr>current_frequency := Fin 0, mna_A := floating_A,
                               mna_b := [czero, czero, czero]\<rparr>))
       (mna_b (floating_circuit\<lparr>current_frequency := Fin 0, mna_A := floating_A,
                               mna_b := [czero, czero, czero]\<rparr>)))
     = length (mna_b (floating_circuit\<lparr>current_frequency := Fin 0, mna_A := floating_A,
                               mna_b := [czero, czero, czero]\<rparr>))"
    by (simp add: lib0_def)
  from analyze_writes_solver_output [OF 1 floating_build 2]
  show ?thesis by (simp add: lib0_def)
qed

text \<open>
  C5, as stated, fails. On the circuit of a resistor and a source for which
  \<open>setGroundNode\<close> was never called, \<open>analyze(0)\<close> returns without a failure.
\<close>

theorem ungrounded_analysis_returns:
  "(case analyze lib0 (Fin 0) ungrounded_circuit of
      Inl e \<Rightarrow> False
    | Inr s' \<Rightarrow> ground_node s' = None \<and> getNodeVoltages s' = [czero, czero, czero, czero])"
  by (simp add: ungrounded_circuit_def num_defs comp_defs an_defs)

text \<open>
  C5, amended. \<open>analyze()\<close> makes no test of the ground node. When none has been set,
  no node is excluded from the unknowns (\<open>getNodeIndex\<close> gives every node of the list
  its position), and on an analyzer with connected components and no registered source
  the call returns once, without a failure, whenever the assembly stays inside the matrix
  and the solver returns a vector of the size of the system.
\<close>

theorem analyze_without_ground:
  assumes "ground_node s = None"
    and "voltage_sources s = []"
    and "distinct (nodes s)"
    and "\<forall>c\<in>set (components s). connected c"
    and "buildMNA L (s\<lparr>current_frequency := f\<rparr>) = Inr s1"
    and "length (qr_solve L (mna_A s1) (mna_b s1)) = length (mna_b s1)"
  shows "(\<forall>i<length (nodes s). getNodeIndex s (Some (nodes s ! i)) = int i)
         \<and> (\<exists>s'. analyze L f s = Inr s' \<and> ground_node s' = None)"
proof -
  have "getNodeIndex s (Some (nodes s ! i)) = int i" if "i < length (nodes s)" for i
    using index_from_distinct [OF assms(3) that, of 0] assms(1) by (simp add: getNodeIndex_def)
  moreover from analyze_returns [OF assms(2-6)] assms(1)
  have "\<exists>s'. analyze L f s = Inr s' \<and> ground_node s' = None" by auto
  ultimately show ?thesis by blast
qed

theorem analyze_without_ground_witness:
  "getNodeIndex ungrounded_circuit (Some 3) = 3
   \<and> (\<exists>s'. analyze lib0 (Fin 0) ungrounded_circuit = Inr s' \<and> ground_node s' = None)"
proof -
  have 2: "length (qr_solve lib0
       (mna_A (ungrounded_circuit\<lparr>current_frequency := Fin 0, mna_A := floating_A,
                               mna_b := [czero, czero, czero]\<rparr>))
       (mna_b (ungrounded_circuit\<lparr>current_frequency := Fin 0, mna_A := floating_A,
                               mna_b := [czero, czero, czero]\<rparr>)))
     = length (mna_b (ungrounded_circuit\<lparr>current_frequency := Fin 0, mna_A := floating_A,
                               mna_b := [czero, czero, czero]\<rparr>))"
    by (simp add: lib0_def)
  have d: "distinct (nodes ungrounded_circuit)" by (simp add: ungrounded_facts)
  from analyze_without_ground [OF ungrounded_facts(3) ungrounded_facts(1) d ungrounded_facts(4)
      ungrounded_build 2]
  show ?thesis by (auto simp: ungrounded_facts(2) dest: spec [of _ 3])
qed

section \<open>The AC sweep\<close>

text \<open>
  C4, as stated, fails for a single point: the step is a division by \<open>points - 1 = 0\<close>,
  and the one frequency of the sweep from 1 Hz to 1 Hz is NaN, not 1 Hz.
\<close>

theorem single_point_sweep_is_NaN:
  "ac_frequencies lib0 (Fin 1) (Fin 1) 1 = [NaN]"
  by (simp add: ac_frequencies_def lib0_def num_defs)

text \<open>
  The exponent of the last sample. The difference of the two logarithms is rounded,
  divided by \<open>n = points - 1\<close>, rounded, multiplied by \<open>n\<close>, rounded, added to the first
  logarithm and rounded: the result is the second logarithm up to 15 relative roundings.
\<close>

lemma rounding_chain:
  fixes rd :: "real \<Rightarrow> real" and n :: real
  assumes e0: "0 \<le> eps" and e1: "eps \<le> 1"
    and rd: "\<And>x. \<bar>rd x - x\<bar> \<le> eps * \<bar>x\<bar>"
    and n: "0 < n"
  shows "\<bar>rd (la + rd (n * rd (rd (lb - la) / n))) - lb\<bar> \<le> 15 * eps * (\<bar>la\<bar> + \<bar>lb\<bar>)"
proof -
  define u where "u = lb - la"
  define d where "d = rd u"
  define st where "st = rd (d / n)"
  define r where "r = n * st"
  define m where "m = rd r"
  define t where "t = la + m"
  have le: "eps * x \<le> x" if "0 \<le> x" for x
    using mult_right_mono [OF e1 that] by simp
  have 1: "\<bar>d - u\<bar> \<le> eps * \<bar>u\<bar>" unfolding d_def by (rule rd)
  have eu: "eps * \<bar>u\<bar> \<le> \<bar>u\<bar>" by (rule le) simp
  have dabs: "\<bar>d\<bar> \<le> 2 * \<bar>u\<bar>" using 1 eu by linarith
  have q: "\<bar>st - d / n\<bar> \<le> eps * \<bar>d / n\<bar>" unfolding st_def by (rule rd)
  have "n * \<bar>st - d / n\<bar> \<le> n * (eps * \<bar>d / n\<bar>)"
    by (rule mult_left_mono [OF q]) (use n in simp)
  moreover have "n * \<bar>st - d / n\<bar> = \<bar>r - d\<bar>"
  proof -
    have "r - d = n * (st - d / n)" using n by (simp add: r_def right_diff_distrib)
    then show ?thesis using n by (simp add: abs_mult)
  qed
  moreover have "n * (eps * \<bar>d / n\<bar>) = eps * \<bar>d\<bar>" using n by (simp add: abs_divide)
  ultimately have 2: "\<bar>r - d\<bar> \<le> eps * \<bar>d\<bar>" by simp
  have ed: "eps * \<bar>d\<bar> \<le> 2 * (eps * \<bar>u\<bar>)" using mult_left_mono [OF dabs e0] by simp
  have rabs: "\<bar>r\<bar> \<le> 4 * \<bar>u\<bar>" using 2 ed eu dabs by linarith
  have 3: "\<bar>m - r\<bar> \<le> eps * \<bar>r\<bar>" unfolding m_def by (rule rd)
  have er: "eps * \<bar>r\<bar> \<le> 4 * (eps * \<bar>u\<bar>)" using mult_left_mono [OF rabs e0] by simp
  have mu: "\<bar>m - u\<bar> \<le> 7 * (eps * \<bar>u\<bar>)" using 1 2 3 ed er by linarith
  have tl: "t - lb = m - u" by (simp add: t_def u_def)
  have tabs: "\<bar>t\<bar> \<le> \<bar>lb\<bar> + 7 * \<bar>u\<bar>" using mu eu tl by linarith
  have 4: "\<bar>rd t - t\<bar> \<le> eps * \<bar>t\<bar>" by (rule rd)
  have et: "eps * \<bar>t\<bar> \<le> eps * \<bar>lb\<bar> + 7 * (eps * \<bar>u\<bar>)"
    using mult_left_mono [OF tabs e0] by (simp add: algebra_simps)
  have ub: "\<bar>u\<bar> \<le> \<bar>la\<bar> + \<bar>lb\<bar>" unfolding u_def by linarith
  have eub: "eps * \<bar>u\<bar> \<le> eps * \<bar>la\<bar> + eps * \<bar>lb\<bar>"
    using mult_left_mono [OF ub e0] by (simp add: algebra_simps)
  have ela: "0 \<le> eps * \<bar>la\<bar>" using e0 by simp
  have lin: "X \<le> B + 14 * C \<Longrightarrow> C \<le> A + B \<Longrightarrow> 0 \<le> A \<Longrightarrow> X \<le> 15 * A + 15 * B"
    for X A B C :: real by linarith
  have "\<bar>rd t - lb\<bar> \<le> eps * \<bar>lb\<bar> + 14 * (eps * \<bar>u\<bar>)" using 4 et mu tl by linarith
  then have "\<bar>rd t - lb\<bar> \<le> 15 * (eps * \<bar>la\<bar>) + 15 * (eps * \<bar>lb\<bar>)"
    using eub ela by (rule lin)
  then have "\<bar>rd t - lb\<bar> \<le> 15 * eps * (\<bar>la\<bar> + \<bar>lb\<bar>)" by (simp add: algebra_simps)
  then show ?thesis unfolding t_def m_def r_def st_def d_def u_def .
qed

text \<open>
  C4, amended: at least two points. Let the arithmetic be faithful with unit roundoff
  \<open>eps\<close>, \<open>0 < fStart \<le> fStop\<close> and \<open>points \<ge> 2\<close>. Then \<open>performAC\<close> samples exactly
  \<open>points\<close> frequencies \<open>pow(10, y)\<close>, where the exponent \<open>y\<close> of sample \<open>i\<close> is the
  rounded \<open>log_start + i * step\<close>; the exponents and the frequencies are in increasing
  order; the first frequency is \<open>pow(10, log10(fStart))\<close>, and the exponent of the last
  is \<open>log10(fStop)\<close> up to \<open>15 eps (|log10(fStart)| + |log10(fStop)|)\<close>: the two end
  points up to the floating round trip. When the sweep returns, the keys it has added to
  the frequency response are the sampled frequencies; each of the \<open>points\<close> analyses
  has been run, in the state that the analyses before it have left, and the entry of its
  frequency is the vector of node voltages that it has left (for a frequency that is
  sampled more than once, that of the last analysis at that frequency).
\<close>

theorem ac_sweep_samples:
  assumes "faithful eps L" and "0 < a" and "a \<le> b" and "2 \<le> p"
  shows "\<exists>la lb st ys ws.
      lib_log10 L (Fin a) = Fin la \<and> lib_log10 L (Fin b) = Fin lb
    \<and> st = round_double L (round_double L (lb - la) / real_of_int (p - 1))
    \<and> length ys = nat p
    \<and> (\<forall>i<nat p. ys ! i = round_double L (la + round_double L (real i * st)))
    \<and> hd ys = la
    \<and> \<bar>last ys - lb\<bar> \<le> 15 * eps * (\<bar>la\<bar> + \<bar>lb\<bar>)
    \<and> sorted ys
    \<and> map (lib_pow10 L) (map Fin ys) = map Fin ws
    \<and> sorted ws
    \<and> ac_frequencies L (Fin a) (Fin b) p = map Fin ws
    \<and> (\<forall>s'. performAC L (Fin a) (Fin b) p s = Inr s' \<longrightarrow>
          dom (frequency_response s') = dom (frequency_response s) \<union> Fin ` set ws
        \<and> (\<forall>i<nat p. \<exists>t u.
              ac_sweep L (map Fin (take i ws)) s = Inr t
            \<and> analyze L (Fin (ws ! i)) t = Inr u
            \<and> (ws ! i \<notin> set (drop (Suc i) ws) \<longrightarrow>
                 frequency_response s' (Fin (ws ! i)) = Some (getNodeVoltages u))))"
proof -
  let ?rd = "round_double L"
  from assms(1) have e0: "0 \<le> eps" and e1: "eps \<le> 1"
    and rd: "\<And>x. \<bar>?rd x - x\<bar> \<le> eps * \<bar>x\<bar>"
    and rmono: "\<And>x y. x \<le> y \<Longrightarrow> ?rd x \<le> ?rd y"
    and lg: "\<And>x. 0 < x \<Longrightarrow> \<exists>v. lib_log10 L (Fin x) = Fin v \<and> ?rd v = v"
    and lmono: "\<And>x y v w. 0 < x \<Longrightarrow> x \<le> y \<Longrightarrow> lib_log10 L (Fin x) = Fin v
                  \<Longrightarrow> lib_log10 L (Fin y) = Fin w \<Longrightarrow> v \<le> w"
    and pw: "\<forall>y. \<exists>w. lib_pow10 L (Fin y) = Fin w"
    and pmono: "\<And>y y' w w'. y \<le> y' \<Longrightarrow> lib_pow10 L (Fin y) = Fin w
                  \<Longrightarrow> lib_pow10 L (Fin y') = Fin w' \<Longrightarrow> w \<le> w'"
    unfolding faithful_def by blast+
  have b0: "0 < b" using assms(2,3) by simp
  from lg [OF assms(2)] obtain la where la: "lib_log10 L (Fin a) = Fin la" and rla: "?rd la = la"
    by blast
  from lg [OF b0] obtain lb where lb: "lib_log10 L (Fin b) = Fin lb" by blast
  have lab: "la \<le> lb" by (rule lmono [OF assms(2,3) la lb])
  from pw obtain g where g: "\<And>y. lib_pow10 L (Fin y) = Fin (g y)"
    using choice [of "\<lambda>y w. lib_pow10 L (Fin y) = Fin w"] by blast
  have gmono: "g y \<le> g y'" if "y \<le> y'" for y y'
    by (rule pmono [OF that g g])
  define n where "n = real_of_int (p - 1)"
  have n0: "0 < n" and n1: "n \<noteq> 0" using assms(4) by (simp_all add: n_def)
  define st where "st = ?rd (?rd (lb - la) / n)"
  define e where "e i = ?rd (la + ?rd (real i * st))" for i :: nat
  define ys where "ys = map e [0..<nat p]"
  define ws where "ws = map g ys"
  have rd0: "?rd 0 = 0" using rd [of 0] by simp
  have st0: "0 \<le> st"
  proof -
    have "0 \<le> ?rd (lb - la)" using rmono [of 0 "lb - la"] lab rd0 by simp
    then have "0 \<le> ?rd (lb - la) / n" using n0 by simp
    from rmono [OF this] rd0 show ?thesis by (simp add: st_def)
  qed
  have len: "length ys = nat p" by (simp add: ys_def)
  have ne: "ys \<noteq> []" using assms(4) len by auto
  have nth: "\<forall>i<nat p. ys ! i = ?rd (la + ?rd (real i * st))"
    by (simp add: ys_def e_def)
  have hd: "hd ys = la"
    using assms(4) by (simp add: ys_def e_def hd_map upt_conv_Cons rd0 rla)
  have "last ys = e (nat p - 1)"
    using assms(4) by (simp add: ys_def last_map last_upt)
  moreover have "real (nat p - 1) = n" using assms(4) by (simp add: n_def)
  ultimately have "last ys = ?rd (la + ?rd (n * ?rd (?rd (lb - la) / n)))"
    by (simp add: e_def st_def)
  with rounding_chain [of eps ?rd n la lb, OF e0 e1 rd n0]
  have last: "\<bar>last ys - lb\<bar> \<le> 15 * eps * (\<bar>la\<bar> + \<bar>lb\<bar>)" by simp
  have emono: "e i \<le> e j" if "i \<le> j" for i j
  proof -
    have "real i * st \<le> real j * st" using that st0 by (simp add: mult_right_mono)
    then have "la + ?rd (real i * st) \<le> la + ?rd (real j * st)" using rmono by simp
    then show ?thesis unfolding e_def by (rule rmono)
  qed
  have sorted: "sorted ys"
    unfolding ys_def by (simp add: sorted_iff_nth_mono emono)
  have pows: "map (lib_pow10 L) (map Fin ys) = map Fin ws"
    by (simp add: ws_def g)
  have wsorted: "sorted ws"
    unfolding ws_def ys_def by (simp add: sorted_iff_nth_mono emono gmono)
  have freqs: "ac_frequencies L (Fin a) (Fin b) p = map Fin ws"
    using n1 by (simp add: ac_frequencies_def Let_def la lb fsub_def ws_def ys_def e_def
        st_def n_def g)
  have wlen: "length ws = nat p" by (simp add: ws_def len)
  have sweep: "dom (frequency_response s') = dom (frequency_response s) \<union> Fin ` set ws
        \<and> (\<forall>i<nat p. \<exists>t u.
              ac_sweep L (map Fin (take i ws)) s = Inr t
            \<and> analyze L (Fin (ws ! i)) t = Inr u
            \<and> (ws ! i \<notin> set (drop (Suc i) ws) \<longrightarrow>
                 frequency_response s' (Fin (ws ! i)) = Some (getNodeVoltages u)))"
    if "performAC L (Fin a) (Fin b) p s = Inr s'" for s'
  proof -
    from that have run: "ac_sweep L (map Fin ws) s = Inr s'"
      by (simp add: performAC_def freqs)
    have "\<exists>t u. ac_sweep L (map Fin (take i ws)) s = Inr t
            \<and> analyze L (Fin (ws ! i)) t = Inr u
            \<and> (ws ! i \<notin> set (drop (Suc i) ws) \<longrightarrow>
                 frequency_response s' (Fin (ws ! i)) = Some (getNodeVoltages u))"
      if "i < nat p" for i
    proof -
      from that wlen have i: "i < length (map Fin ws)" by simp
      have "Fin (ws ! i) \<in> set (drop (Suc i) (map Fin ws)) \<longleftrightarrow> ws ! i \<in> set (drop (Suc i) ws)"
        by (auto simp: drop_map)
      with ac_sweep_records [OF run i] that wlen show ?thesis
        by (simp add: take_map)
    qed
    with ac_sweep_dom [OF run] show ?thesis by simp
  qed
  from la lb st_def [unfolded n_def] len nth hd last sorted pows wsorted freqs sweep
  show ?thesis by blast
qed

text \<open>
  Three points from 1 Hz to 100 Hz on a lone grounded source, with exact arithmetic: the
  sweep returns, and its three frequencies are the keys of the frequency response.
\<close>

lemma lib0_faithful: "faithful 0 lib0"
  by (auto simp: faithful_def lib0_def)

theorem ac_sweep_samples_witness:
  "\<exists>ws s'. ac_frequencies lib0 (Fin 1) (Fin 100) 3 = map Fin ws \<and> length ws = 3 \<and> sorted ws
      \<and> performAC lib0 (Fin 1) (Fin 100) 3 source_grounded = Inr s'
      \<and> dom (frequency_response s') = Fin ` set ws"
proof -
  have run: "\<exists>s'. performAC lib0 (Fin 1) (Fin 100) 3 source_grounded = Inr s'"
    by (simp add: performAC_def ac_frequencies_def source_grounded_def source_only_def
          num_defs comp_defs an_defs)
  then obtain s' where s': "performAC lib0 (Fin 1) (Fin 100) 3 source_grounded = Inr s'" ..
  have d: "dom (frequency_response source_grounded) = {}"
    by (simp add: source_grounded_def source_only_def num_defs comp_defs an_defs)
  from ac_sweep_samples [OF lib0_faithful, of 1 100 3 source_grounded]
  obtain ys ws where ys: "length ys = nat 3"
    and m: "map (lib_pow10 lib0) (map Fin ys) = map Fin ws"
    and w: "sorted ws" "ac_frequencies lib0 (Fin 1) (Fin 100) 3 = map Fin ws"
    and r: "\<forall>s'. performAC lib0 (Fin 1) (Fin 100) 3 source_grounded = Inr s' \<longrightarrow>
          dom (frequency_response s') = dom (frequency_response source_grounded) \<union> Fin ` set ws
        \<and> (\<forall>i<nat 3. \<exists>t u.
              ac_sweep lib0 (map Fin (take i ws)) source_grounded = Inr t
            \<and> analyze lib0 (Fin (ws ! i)) t = Inr u
            \<and> (ws ! i \<notin> set (drop (Suc i) ws) \<longrightarrow>
                 frequency_response s' (Fin (ws ! i)) = Some (getNodeVoltages u)))"
    by auto
  from m have "length ws = length ys" using map_eq_imp_length_eq [of Fin ws] by (metis length_map)
  with ys have "length ws = 3" by simp
  moreover from r s' d have "dom (frequency_response s') = Fin ` set ws" by simp
  ultimately show ?thesis using w s' by blast
qed

section \<open>The transient sweep\<close>

lemma source_grounded_eval:
  "source_grounded =
     \<lparr>components =
        [\<lparr>comp_name = ''V1'',
          pins = [\<lparr>pin_name = ''p1'', node = Some 0\<rparr>, \<lparr>pin_name = ''p2'', node = Some 1\<rparr>],
          parameters = [''voltage'' \<mapsto> Fin 10, ''frequency'' \<mapsto> Fin 0],
          sub = VoltageSource (Fin 0, Fin 0) (Fin 0)\<rparr>],
      nodes = [0, 1], voltage_sources = [], ground_node = Some 1, mna_A = [], mna_b = [],
      current_frequency = Fin 0, time_now = Fin 0, timestep = Fin (1 / 10 ^ 6),
      next_node_id = 2, frequency_response = Map.empty, voltage = (\<lambda>a. (Fin 0, Fin 0)),
      node_count = 2\<rparr>"
  by (simp add: source_grounded_def source_only_def num_defs comp_defs an_defs fun_eq_iff)

text \<open>
  One round of the loop, and what it does to the time of a voltage source: the source is
  advanced by the \<open>timestep_\<close> of the analyzer inside \<open>analyze\<close> and then by \<open>dt\<close>.
\<close>

lemma update_all_nth:
  "update_all L V dt cs = Inr cs' \<Longrightarrow> k < length cs
     \<Longrightarrow> updateState L V dt (cs ! k) = Inr (cs' ! k)"
proof (induction cs arbitrary: cs' k)
  case Nil
  then show ?case by simp
next
  case (Cons c cs)
  from Cons.prems(1) obtain c' cs1 where c: "updateState L V dt c = Inr c'"
    and r: "update_all L V dt cs = Inr cs1" and e: "cs' = c' # cs1"
    by (auto simp: seq_Inr)
  show ?case
  proof (cases k)
    case 0
    with c e show ?thesis by simp
  next
    case (Suc j)
    with Cons.prems(2) Cons.IH [OF r, of j] e show ?thesis by simp
  qed
qed

lemma transient_round:
  assumes "flt t stop_time" and "analyze L (Fin 0) s = Inr s1"
    and "update_all L (voltage s1) dt (components s1) = Inr cs"
  shows "transient_loop L stop_time dt t s
         = transient_loop L stop_time dt (fadd t dt)
             (s1\<lparr>components := cs, time_now := fadd t dt\<rparr>)"
  by (subst transient_loop.simps) (simp add: assms)

lemma transient_round_source_time:
  assumes vs: "voltage_sources s = []"
    and a: "analyze L f s = Inr s1"
    and u: "update_all L (voltage s1) dt (components s1) = Inr cs"
    and k: "k < length (components s)"
    and src: "sub (components s ! k) = VoltageSource i t"
  shows "sub (cs ! k) = VoltageSource i (fadd (fadd t (timestep s)) dt)"
proof -
  from a [unfolded analyze_no_sources [OF vs]]
  obtain A V cs1 where cs1: "update_all L V (timestep s) (components s) = Inr cs1"
    and s1: "s1 = s\<lparr>current_frequency := f, mna_A := A,
                     mna_b := replicate (length (nodes s) - 1) czero, voltage := V,
                     components := cs1\<rparr>"
    by auto
  from update_all_nth [OF cs1 k] src
  have "cs1 ! k = (components s ! k)\<lparr>sub := VoltageSource i (fadd t (timestep s))\<rparr>"
    by (simp add: updateState_def)
  then have 1: "sub (cs1 ! k) = VoltageSource i (fadd t (timestep s))"
    by simp
  have "length cs1 = length (components s)"
    using update_all_shape [OF cs1] by (simp add: list_all2_lengthD)
  with k have k1: "k < length (components s1)" by (simp add: s1)
  from update_all_nth [OF u k1] 1
  have "cs ! k = (cs1 ! k)\<lparr>sub := VoltageSource i (fadd (fadd t (timestep s)) dt)\<rparr>"
    by (simp add: updateState_def s1)
  then show ?thesis by simp
qed

text \<open>
  C6 fails on the code. One step of \<open>performTransient(1, 1)\<close> on a lone source calls
  \<open>updateState\<close> on the source twice, once inside \<open>analyze()\<close> with the analyzer's own
  \<open>timestep_\<close> of 1 us and once with \<open>dt\<close>: the clock of the analyzer stands at 1 s
  and the time of the source at 1.000001 s.
\<close>

theorem transient_step_updates_twice:
  "map_option (map_sum id (\<lambda>s. (time_now s, map sub (components s))))
     (performTransient lib0 (Fin 1) (Fin 1) source_grounded)
   = Some (Inr (Fin 1, [VoltageSource czero (Fin (1 + 1 / 10 ^ 6))]))"
  unfolding performTransient_def
  apply (subst transient_loop.simps)
  apply (simp add: source_grounded_eval)
  apply (simp add: num_defs comp_defs an_defs)
  apply (subst transient_loop.simps)
  apply (simp add: num_defs comp_defs an_defs)
  done

theorem transient_step_updates_twice_witness:
  "performTransient lib0 (Fin 1) (Fin 1) source_grounded \<noteq> None"
  using transient_step_updates_twice by auto

section \<open>The bounds of the optimizer parameters\<close>

text \<open>
  \<open>reflect\<close>, which makes the points of the reflection, expansion and contraction steps,
  clamps every coordinate: its result is within the bounds.
\<close>

lemma clamp_bounds:
  assumes "lo \<le> hi"
  shows "\<exists>w. clamp (Fin v) (Fin lo) (Fin hi) = Fin w \<and> lo \<le> w \<and> w \<le> hi"
  using assms by (auto simp: clamp_def)

lemma reflect_length: "length (reflect n centroid point k) = length centroid"
proof -
  have "length (foldl (\<lambda>result i.
        result[i := clamp_current ((result ! i)\<lparr>current_value :=
            fadd (current_value (centroid ! i))
              (fmul k (fsub (current_value (centroid ! i)) (current_value (point ! i))))\<rparr>)])
       r xs) = length r" for r xs
    by (induction xs arbitrary: r) simp_all
  then show ?thesis by (simp add: reflect_def)
qed

lemma reflect_nth:
  assumes "i < n" and "n \<le> length centroid"
  shows "reflect n centroid point k ! i
         = clamp_current ((centroid ! i)\<lparr>current_value :=
              fadd (current_value (centroid ! i))
                (fmul k (fsub (current_value (centroid ! i)) (current_value (point ! i))))\<rparr>)"
proof -
  let ?f = "\<lambda>result i.
        result[i := clamp_current ((result ! i)\<lparr>current_value :=
            fadd (current_value (centroid ! i))
              (fmul k (fsub (current_value (centroid ! i)) (current_value (point ! i))))\<rparr>)]"
  let ?g = "\<lambda>i. clamp_current ((centroid ! i)\<lparr>current_value :=
              fadd (current_value (centroid ! i))
                (fmul k (fsub (current_value (centroid ! i)) (current_value (point ! i))))\<rparr>)"
  have len: "length (foldl ?f centroid [0..<m]) = length centroid" for m
    by (induction m) simp_all
  have "\<forall>j<length centroid. foldl ?f centroid [0..<m] ! j = (if j < m then ?g j else centroid ! j)"
    if "m \<le> length centroid" for m
    using that
  proof (induction m)
    case 0
    then show ?case by simp
  next
    case (Suc m)
    then have ih: "\<forall>j<length centroid. foldl ?f centroid [0..<m] ! j = (if j < m then ?g j else centroid ! j)"
      by simp
    show ?case
    proof (intro allI impI)
      fix j assume j: "j < length centroid"
      show "foldl ?f centroid [0..<Suc m] ! j = (if j < Suc m then ?g j else centroid ! j)"
      proof (cases "j = m")
        case True
        with ih j Suc.prems len [of m] show ?thesis by simp
      next
        case False
        with ih j len [of m] show ?thesis by (simp add: nth_list_update)
      qed
    qed
  qed
  from this [OF assms(2)] assms show ?thesis by (simp add: reflect_def)
qed

lemma reflect_within_bounds:
  assumes "i < n" and "n \<le> length centroid" and "within_bounds (centroid ! i)"
    and "current_value (point ! i) = Fin x"
  shows "within_bounds (reflect n centroid point (Fin k) ! i)"
proof -
  from assms(3) obtain lo hi v where b: "min_value (centroid ! i) = Fin lo"
    "max_value (centroid ! i) = Fin hi" "current_value (centroid ! i) = Fin v" "lo \<le> hi"
    by (auto simp: within_bounds_def)
  from clamp_bounds [OF b(4), of "v + k * (v - x)"] b assms(4)
  show ?thesis
    unfolding reflect_nth [OF assms(1,2)]
    by (auto simp: within_bounds_def clamp_current_def fsub_def)
qed

text \<open>
  C9 fails on the code. In the run of Nelder-Mead on \<open>nm_example\<close> with the shrink
  coefficient 2, the shrink step moves the second point of the simplex to \<open>x = 10.2\<close>
  and passes it to the measurement function, although the maximum of \<open>x\<close> is 10: the
  shrink step does not clamp, as every other step does. The list gives, for each call of
  the measurement function, the value and the maximum of \<open>x\<close>.
\<close>

theorem nelder_mead_shrink_leaves_bounds:
  "map_sum id (\<lambda>r. map (map (\<lambda>p. (current_value p, max_value p))) (measured (snd r)))
     (NelderMead_optimize (Fin 1) (Fin 2) (Fin (1 / 2)) (Fin 2) (Fin (1 / 10 ^ 6)) 1 nm_example)
   = Inr [[(Fin (49 / 5), Fin 10)], [(Fin 10, Fin 10)], [(Fin (48 / 5), Fin 10)],
          [(Fin (99 / 10), Fin 10)], [(Fin (51 / 5), Fin 10)]]"
  by (simp add: NelderMead_optimize_def nm_example_def generateRandomIndividual_def
        uniformDist_def energy_def evaluateFitness_def seq_def clamp_def clamp_current_def
        reflect_def order_of_def centroid_of_def nm_round_def min_element_def num_defs Let_def
        eval_nat_numeral)

theorem nelder_mead_shrink_leaves_bounds_witness:
  "\<exists>r. NelderMead_optimize (Fin 1) (Fin 2) (Fin (1 / 2)) (Fin 2) (Fin (1 / 10 ^ 6)) 1 nm_example
         = Inr r
       \<and> map current_value (measured (snd r) ! 4) = [Fin (51 / 5)]"
  using nelder_mead_shrink_leaves_bounds
  by (cases "NelderMead_optimize (Fin 1) (Fin 2) (Fin (1 / 2)) (Fin 2) (Fin (1 / 10 ^ 6)) 1 nm_example")
     (auto simp: map_eq_Cons_conv)

end
